theory Spec2Isabelle
  imports Main "HOL-Library.Code_Target_Numeral"
begin

section \<open>The network controller of the wallet extension\<close>

text \<open>
  A shallow embedding of \<^verbatim>\<open>src/app/scripts/controllers/network/network.js\<close>: the class
  \<^verbatim>\<open>NetworkController\<close> becomes a record of its fields, every method a function from
  the controller to an outcome and the controller it leaves behind. A method that throws
  leaves the mutations it made before the \<^verbatim>\<open>throw\<close>, so the controller is returned
  beside the error and not instead of it.
\<close>

subsection \<open>JavaScript values\<close>

text \<open>
  The values the controller handles: \<^verbatim>\<open>undefined\<close>, \<^verbatim>\<open>null\<close>, strings, and objects, which
  are compared by reference (\<^verbatim>\<open>===\<close> is equality of the reference). Strings are ASCII.
\<close>

datatype jsval = JUndefined | JNull | JStr string | JObj nat

fun truthy :: "jsval \<Rightarrow> bool" where
  "truthy JUndefined = False"
| "truthy JNull = False"
| "truthy (JStr s) = (s \<noteq> [])"
| "truthy (JObj r) = True"

text \<open>\<^verbatim>\<open>a || b\<close>\<close>

definition js_or :: "jsval \<Rightarrow> jsval \<Rightarrow> jsval" where
  "js_or a b = (if truthy a then a else b)"

text \<open>A default parameter value replaces \<^verbatim>\<open>undefined\<close> only.\<close>

definition default_arg :: "jsval \<Rightarrow> jsval \<Rightarrow> jsval" where
  "default_arg dflt a = (if a = JUndefined then dflt else a)"

text \<open>\<^verbatim>\<open>ToString\<close>, which turns a value into a property name.\<close>

fun toString :: "jsval \<Rightarrow> string" where
  "toString JUndefined = ''undefined''"
| "toString JNull = ''null''"
| "toString (JStr s) = s"
| "toString (JObj r) = ''[object Object]''"

subsection \<open>Numbers, and \<^verbatim>\<open>parseInt(string, 16)\<close>\<close>

text \<open>
  A JavaScript number that \<^verbatim>\<open>parseInt\<close> can return: \<^verbatim>\<open>NaN\<close>, an integer that a double
  holds exactly, or an infinity (\<open>True\<close> for the negative one). Negative zero is not
  told apart from zero.
\<close>

datatype jsnum = NaN | Finite int | Infinite bool

function bit_length :: "nat \<Rightarrow> nat" where
  "bit_length n = (if n = 0 then 0 else Suc (bit_length (n div 2)))"
  by pat_completeness auto
termination
  by (relation "measure id") auto

declare bit_length.simps [simp del]

text \<open>
  The double nearest to a natural number, ties to the even significand of 53 bits;
  \<open>None\<close> when the result is beyond the largest double.
\<close>

definition nearest_double :: "nat \<Rightarrow> nat option" where
  "nearest_double n =
     (if n < 2 ^ 53 then Some n
      else let e = bit_length n - 53;
               q = n div 2 ^ e;
               r = n mod 2 ^ e;
               h = 2 ^ (e - 1);
               q' = (if h < r \<or> (r = h \<and> odd q) then q + 1 else q)
           in if q' * 2 ^ e < 2 ^ 1024 then Some (q' * 2 ^ e) else None)"

definition isWhiteSpace :: "char \<Rightarrow> bool" where
  "isWhiteSpace c = ((of_char c :: nat) \<in> {9, 10, 11, 12, 13, 32})"

definition hexDigit :: "char \<Rightarrow> nat option" where
  "hexDigit c =
     (let n = (of_char c :: nat)
      in if 48 \<le> n \<and> n \<le> 57 then Some (n - 48)
         else if 97 \<le> n \<and> n \<le> 102 then Some (n - 87)
         else if 65 \<le> n \<and> n \<le> 70 then Some (n - 55)
         else None)"

text \<open>The values of the longest prefix of hexadecimal digits.\<close>

fun hexPrefix :: "string \<Rightarrow> nat list" where
  "hexPrefix [] = []"
| "hexPrefix (c # cs) = (case hexDigit c of None \<Rightarrow> [] | Some v \<Rightarrow> v # hexPrefix cs)"

definition hexValue :: "nat list \<Rightarrow> nat" where
  "hexValue ds = foldl (\<lambda>acc v. 16 * acc + v) 0 ds"

definition stripSign :: "string \<Rightarrow> bool \<times> string" where
  "stripSign s =
     (case s of
        [] \<Rightarrow> (False, [])
      | c # cs \<Rightarrow> if c = CHR ''-'' then (True, cs)
                  else if c = CHR ''+'' then (False, cs)
                  else (False, s))"

definition stripHexPrefix :: "string \<Rightarrow> string" where
  "stripHexPrefix s =
     (case s of
        a # b # rest \<Rightarrow>
          if a = CHR ''0'' \<and> (b = CHR ''x'' \<or> b = CHR ''X'') then rest else s
      | _ \<Rightarrow> s)"

text \<open>
  \<^verbatim>\<open>parseInt(s, 16)\<close>: leading white space is dropped, then a sign, then \<^verbatim>\<open>0x\<close> or
  \<^verbatim>\<open>0X\<close>; the longest run of hexadecimal digits is read, and \<^verbatim>\<open>NaN\<close> is returned when
  it is empty. The integer read is converted to a double.
\<close>

definition parseInt16 :: "string \<Rightarrow> jsnum" where
  "parseInt16 s =
     (let (neg, s1) = stripSign (dropWhile isWhiteSpace s);
          ds = hexPrefix (stripHexPrefix s1)
      in if ds = [] then NaN
         else (case nearest_double (hexValue ds) of
                 None \<Rightarrow> Infinite neg
               | Some m \<Rightarrow> Finite (if neg then - int m else int m)))"

subsection \<open>Errors\<close>

text \<open>
  The failed assertions of \<^verbatim>\<open>setRpcTarget\<close> and \<^verbatim>\<open>setProviderType\<close>, in the order of
  the source; each stands for the \<^verbatim>\<open>AssertionError\<close> that \<^verbatim>\<open>assert\<close> throws with the
  message of that place.
\<close>

datatype assertion =
    InvalidHexString string
  | UnsafeChainId string
  | CalledWithRpcType
  | UnknownInfuraProviderType jsval

datatype error =
    AssertionError assertion
  | TypeError
  | InvalidInfuraProjectId
  | UnknownProviderType jsval
  | CollaboratorError string

datatype outcome = Returned | Threw error

fun isAssertionError :: "error \<Rightarrow> bool" where
  "isAssertionError (AssertionError a) = True"
| "isAssertionError TypeError = False"
| "isAssertionError InvalidInfuraProjectId = False"
| "isAssertionError (UnknownProviderType t) = False"
| "isAssertionError (CollaboratorError m) = False"

subsection \<open>The provider configuration and the stores\<close>

text \<open>
  A provider configuration is a plain object; the controller writes the six properties
  below and reads three of them. \<open>None\<close> is a property the object does not have,
  \<open>Some JUndefined\<close> one it has with the value \<^verbatim>\<open>undefined\<close> (what \<^verbatim>\<open>setRpcTarget\<close>
  stores for \<^verbatim>\<open>rpcPrefs\<close> when the argument is left out).
\<close>

record providerConfig =
  c_type :: "jsval option"
  c_rpcUrl :: "jsval option"
  c_chainId :: "jsval option"
  c_ticker :: "jsval option"
  c_nickname :: "jsval option"
  c_rpcPrefs :: "jsval option"

text \<open>Reading a property: one the object lacks reads as \<^verbatim>\<open>undefined\<close>.\<close>

definition getProp :: "jsval option \<Rightarrow> jsval" where
  "getProp p = (case p of None \<Rightarrow> JUndefined | Some v \<Rightarrow> v)"

definition assign_prop :: "jsval option \<Rightarrow> jsval option \<Rightarrow> jsval option" where
  "assign_prop old new = (case new of None \<Rightarrow> old | Some v \<Rightarrow> Some v)"

text \<open>
  \<^verbatim>\<open>ObservableStore.updateState(partial)\<close> of the library \<^verbatim>\<open>@metamask/obs-store\<close>, for a
  stored object and an object argument: the new state is
  \<^verbatim>\<open>Object.assign({}, state, partial)\<close>, so every property of the argument is written
  over the stored object and every other property of the stored object stays.
  (\<^verbatim>\<open>putState\<close>, which the controller uses for the network status, replaces the state.)
\<close>

definition updateState :: "providerConfig \<Rightarrow> providerConfig \<Rightarrow> providerConfig" where
  "updateState state partial =
     \<lparr> c_type = assign_prop (c_type state) (c_type partial),
       c_rpcUrl = assign_prop (c_rpcUrl state) (c_rpcUrl partial),
       c_chainId = assign_prop (c_chainId state) (c_chainId partial),
       c_ticker = assign_prop (c_ticker state) (c_ticker partial),
       c_nickname = assign_prop (c_nickname state) (c_nickname partial),
       c_rpcPrefs = assign_prop (c_rpcPrefs state) (c_rpcPrefs partial) \<rparr>"

subsection \<open>What the controller imports\<close>

text \<open>
  The constants of \<^verbatim>\<open>shared/constants/network\<close>, the two predicates of
  \<^verbatim>\<open>shared/modules/network.utils\<close>, the three constructors of clients and middleware and
  the process environment are not part of the controller's file. They are parameters of
  the model: every function below takes them in a record, and the theorems hold for all
  of them. A constructor returns \<open>None\<close> when it returns normally and \<open>Some e\<close> when
  it throws \<open>e\<close>. \<open>NETWORK_TYPE_TO_ID_MAP\<close> maps a property name to the
  \<^verbatim>\<open>chainId\<close> of the entry of that name.
\<close>

record deps =
  BARNARD :: string
  MAINNET :: string
  INFURA_PROVIDER_TYPES :: "string list"
  NETWORK_TYPE_RPC :: string
  NETWORK_TYPE_TO_ID_MAP :: "string \<Rightarrow> jsval option"
  MAINNET_CHAIN_ID :: string
  BARNARD_CHAIN_ID :: string
  isPrefixedFormattedHexString :: "string \<Rightarrow> bool"
  isSafeChainId :: "jsnum \<Rightarrow> bool"
  createMetamaskMiddleware :: "jsval \<Rightarrow> error option"
  createInfuraClient :: "jsval \<Rightarrow> jsval \<Rightarrow> error option"
  createJsonRpcClient :: "jsval \<Rightarrow> jsval \<Rightarrow> error option"
  env_IN_TEST :: jsval
  env_STARMASK_DEBUG :: jsval
  env_METAMASK_ENV :: jsval

definition defaultProviderConfigOpts :: "deps \<Rightarrow> providerConfig" where
  "defaultProviderConfigOpts d =
     (if env_IN_TEST d = JStr ''true'' then
        \<lparr> c_type = Some (JStr (NETWORK_TYPE_RPC d)),
          c_rpcUrl = Some (JStr ''http://localhost:9850''),
          c_chainId = Some (JStr ''0xfe''),
          c_ticker = None,
          c_nickname = Some (JStr ''Localhost 9850''),
          c_rpcPrefs = None \<rparr>
      else if truthy (env_STARMASK_DEBUG d) \<or> env_METAMASK_ENV d = JStr ''test'' then
        \<lparr> c_type = Some (JStr (BARNARD d)), c_rpcUrl = None,
          c_chainId = Some (JStr (BARNARD_CHAIN_ID d)),
          c_ticker = None, c_nickname = None, c_rpcPrefs = None \<rparr>
      else
        \<lparr> c_type = Some (JStr (MAINNET d)), c_rpcUrl = None,
          c_chainId = Some (JStr (MAINNET_CHAIN_ID d)),
          c_ticker = None, c_nickname = None, c_rpcPrefs = None \<rparr>)"

definition defaultProviderConfig :: "deps \<Rightarrow> providerConfig" where
  "defaultProviderConfig d =
     updateState
       \<lparr> c_type = None, c_rpcUrl = None, c_chainId = None,
         c_ticker = Some (JStr ''STC''), c_nickname = None, c_rpcPrefs = None \<rparr>
       (defaultProviderConfigOpts d)"

definition NETWORK_DID_CHANGE :: string where
  "NETWORK_DID_CHANGE = ''networkDidChange''"

definition NETWORK_WILL_CHANGE :: string where
  "NETWORK_WILL_CHANGE = ''networkWillChange''"

subsection \<open>The controller\<close>

text \<open>
  Objects the controller creates (providers, block trackers, proxies) are references,
  taken from a counter. A proxy of \<^verbatim>\<open>swappable-obj-proxy\<close> is an object of its own with a
  target that \<^verbatim>\<open>setTarget\<close> replaces.
\<close>

record proxy =
  proxy_ref :: nat
  proxy_target :: nat

text \<open>
  A liveness probe in flight: the request has been handed to \<^verbatim>\<open>sendAsync\<close> and its
  callback has not run yet. The callback closes over \<^verbatim>\<open>initialNetwork\<close>; \<open>sentVia\<close> is
  the provider the request went through.
\<close>

record probe =
  initialNetwork :: jsval
  sentVia :: nat

text \<open>
  The listeners the controller registers on itself. Listeners that other modules
  register on the controller's events are not part of the controller.
\<close>

datatype handler = LookupNetworkHandler

text \<open>What the controller does that others can observe, in the order it does it.\<close>

datatype effect =
    Emitted string jsval
  | NetworkStatePut jsval
  | ProviderStatePut providerConfig
  | PreviousProviderStatePut providerConfig
  | LogWarn string
  | LogInfo string jsval
  | ProxyCreated nat nat
  | ProxyTargetSet nat nat
  | RequestSent nat string

text \<open>
  The fields of the class, then the event emitter's listeners, the reference counter,
  the probes in flight and the trace of effects. \<open>None\<close> is \<^verbatim>\<open>null\<close>.
\<close>

record controller =
  providerStore :: providerConfig
  previousProviderStore :: providerConfig
  networkStore :: jsval
  provider :: "nat option"
  blockTracker :: "nat option"
  providerProxy :: "proxy option"
  blockTrackerProxy :: "proxy option"
  infuraProjectId :: jsval
  baseProviderParams :: jsval
  listeners :: "(string \<times> handler) list"
  nextRef :: nat
  inFlight :: "probe list"
  effects :: "effect list"

definition loading :: jsval where
  "loading = JStr ''loading''"

definition record_effect :: "effect \<Rightarrow> controller \<Rightarrow> controller" where
  "record_effect e s = s\<lparr>effects := effects s @ [e]\<rparr>"

text \<open>
  The constructor; its argument is \<^verbatim>\<open>opts.provider\<close>, \<open>None\<close> when it is left out.
  The composed store is a view of the three stores and has no state of its own.
\<close>

definition constructor :: "deps \<Rightarrow> providerConfig option \<Rightarrow> controller" where
  "constructor d opts_provider =
     (let initial = (case opts_provider of
                       Some p \<Rightarrow> p
                     | None \<Rightarrow> defaultProviderConfig d)
      in \<lparr> providerStore = initial,
           previousProviderStore = initial,
           networkStore = loading,
           provider = None,
           blockTracker = None,
           providerProxy = None,
           blockTrackerProxy = None,
           infuraProjectId = JUndefined,
           baseProviderParams = JUndefined,
           listeners = [(NETWORK_DID_CHANGE, LookupNetworkHandler)],
           nextRef = 0,
           inFlight = [],
           effects = [] \<rparr>)"

definition setInfuraProjectId :: "jsval \<Rightarrow> controller \<Rightarrow> outcome \<times> controller" where
  "setInfuraProjectId projectId s =
     (case projectId of
        JStr p \<Rightarrow> if p = [] then (Threw InvalidInfuraProjectId, s)
                  else (Returned, s\<lparr>infuraProjectId := projectId\<rparr>)
      | _ \<Rightarrow> (Threw InvalidInfuraProjectId, s))"

definition getProviderAndBlockTracker :: "controller \<Rightarrow> proxy option \<times> proxy option" where
  "getProviderAndBlockTracker s = (providerProxy s, blockTrackerProxy s)"

definition getNetworkState :: "controller \<Rightarrow> jsval" where
  "getNetworkState s = networkStore s"

definition setNetworkState :: "jsval \<Rightarrow> controller \<Rightarrow> controller" where
  "setNetworkState network s =
     record_effect (NetworkStatePut network) (s\<lparr>networkStore := network\<rparr>)"

definition isNetworkLoading :: "controller \<Rightarrow> bool" where
  "isNetworkLoading s = (getNetworkState s = loading)"

definition getProviderConfig :: "controller \<Rightarrow> providerConfig" where
  "getProviderConfig s = providerStore s"

definition getCurrentChainId :: "deps \<Rightarrow> controller \<Rightarrow> jsval" where
  "getCurrentChainId d s =
     (let type = getProp (c_type (getProviderConfig s));
          configChainId = getProp (c_chainId (getProviderConfig s))
      in js_or (case NETWORK_TYPE_TO_ID_MAP d (toString type) of
                  None \<Rightarrow> JUndefined
                | Some c \<Rightarrow> c)
               configChainId)"

text \<open>
  \<^verbatim>\<open>lookupNetwork\<close> up to the call of \<^verbatim>\<open>sendAsync\<close>: the request is sent and the probe
  is in flight. The callback runs later, in \<open>lookupNetworkCallback\<close>.
\<close>

definition lookupNetwork :: "deps \<Rightarrow> controller \<Rightarrow> controller" where
  "lookupNetwork d s =
     (case provider s of
        None \<Rightarrow>
          record_effect
            (LogWarn ''NetworkController - lookupNetwork aborted due to missing provider'') s
      | Some p \<Rightarrow>
          let chainId = getCurrentChainId d s
          in if \<not> truthy chainId then
               setNetworkState loading
                 (record_effect
                    (LogWarn ''NetworkController - lookupNetwork aborted due to missing chainId'')
                    s)
             else
               let initial = getNetworkState s
               in record_effect (RequestSent p ''chain.id'')
                    (s\<lparr>inFlight := inFlight s @ [\<lparr>initialNetwork = initial, sentVia = p\<rparr>]\<rparr>))"

text \<open>The callback of the probe \<open>p\<close>, called with \<^verbatim>\<open>(err, networkVersion)\<close>.\<close>

definition lookupNetworkCallback :: "probe \<Rightarrow> jsval \<Rightarrow> jsval \<Rightarrow> controller \<Rightarrow> controller" where
  "lookupNetworkCallback p err networkVersion s =
     (let currentNetwork = getNetworkState s
      in if initialNetwork p = currentNetwork then
           (if truthy err then setNetworkState loading s
            else setNetworkState networkVersion s)
         else s)"

text \<open>
  The response to the \<open>i\<close>-th probe in flight arrives: the probe leaves the list and its
  callback runs. Nothing happens when there is no such probe.
\<close>

definition deliverResponse :: "nat \<Rightarrow> jsval \<Rightarrow> jsval \<Rightarrow> controller \<Rightarrow> controller" where
  "deliverResponse i err networkVersion s =
     (if i < length (inFlight s) then
        lookupNetworkCallback (inFlight s ! i) err networkVersion
          (s\<lparr>inFlight := take i (inFlight s) @ drop (Suc i) (inFlight s)\<rparr>)
      else s)"

definition verifyNetwork :: "deps \<Rightarrow> controller \<Rightarrow> controller" where
  "verifyNetwork d s = (if isNetworkLoading s then lookupNetwork d s else s)"

text \<open>\<^verbatim>\<open>emit\<close>: the listeners registered for the event run in the order of registration.\<close>

fun run_handler :: "deps \<Rightarrow> handler \<Rightarrow> controller \<Rightarrow> controller" where
  "run_handler d LookupNetworkHandler s = lookupNetwork d s"

definition emit :: "deps \<Rightarrow> string \<Rightarrow> jsval \<Rightarrow> controller \<Rightarrow> controller" where
  "emit d name arg s =
     foldl (\<lambda>acc h. run_handler d h acc)
       (record_effect (Emitted name arg) s)
       (map snd (filter (\<lambda>l. fst l = name) (listeners s)))"

definition setProviderAndBlockTracker :: "nat \<Rightarrow> nat \<Rightarrow> controller \<Rightarrow> controller" where
  "setProviderAndBlockTracker p bt s =
     (let s1 = (case providerProxy s of
                  Some px \<Rightarrow>
                    record_effect (ProxyTargetSet (proxy_ref px) p)
                      (s\<lparr>providerProxy := Some (px\<lparr>proxy_target := p\<rparr>)\<rparr>)
                | None \<Rightarrow>
                    record_effect (ProxyCreated (nextRef s) p)
                      (s\<lparr>providerProxy := Some \<lparr>proxy_ref = nextRef s, proxy_target = p\<rparr>,
                         nextRef := Suc (nextRef s)\<rparr>));
          s2 = (case blockTrackerProxy s1 of
                  Some bx \<Rightarrow>
                    record_effect (ProxyTargetSet (proxy_ref bx) bt)
                      (s1\<lparr>blockTrackerProxy := Some (bx\<lparr>proxy_target := bt\<rparr>)\<rparr>)
                | None \<Rightarrow>
                    record_effect (ProxyCreated (nextRef s1) bt)
                      (s1\<lparr>blockTrackerProxy :=
                            Some \<lparr>proxy_ref = nextRef s1, proxy_target = bt\<rparr>,
                          nextRef := Suc (nextRef s1)\<rparr>))
      in s2\<lparr>provider := Some p, blockTracker := Some bt\<rparr>)"

text \<open>
  \<^verbatim>\<open>_setNetworkClient\<close>, given the block tracker of the client: the middleware is built
  from the base parameters, and \<^verbatim>\<open>providerFromEngine\<close> makes a new provider.
\<close>

definition setNetworkClient :: "deps \<Rightarrow> nat \<Rightarrow> controller \<Rightarrow> outcome \<times> controller" where
  "setNetworkClient d bt s =
     (case createMetamaskMiddleware d (baseProviderParams s) of
        Some e \<Rightarrow> (Threw e, s)
      | None \<Rightarrow>
          (Returned, setProviderAndBlockTracker (nextRef s) bt (s\<lparr>nextRef := Suc (nextRef s)\<rparr>)))"

definition configureInfuraProvider ::
    "deps \<Rightarrow> jsval \<Rightarrow> jsval \<Rightarrow> controller \<Rightarrow> outcome \<times> controller" where
  "configureInfuraProvider d type projectId s =
     (let s1 = record_effect (LogInfo ''NetworkController - configureInfuraProvider'' type) s
      in case createInfuraClient d type projectId of
           Some e \<Rightarrow> (Threw e, s1)
         | None \<Rightarrow> setNetworkClient d (nextRef s1) (s1\<lparr>nextRef := Suc (nextRef s1)\<rparr>))"

definition configureStandardProvider ::
    "deps \<Rightarrow> jsval \<Rightarrow> jsval \<Rightarrow> controller \<Rightarrow> outcome \<times> controller" where
  "configureStandardProvider d rpcUrl chainId s =
     (let s1 = record_effect (LogInfo ''NetworkController - configureStandardProvider'' rpcUrl) s
      in case createJsonRpcClient d rpcUrl chainId of
           Some e \<Rightarrow> (Threw e, s1)
         | None \<Rightarrow> setNetworkClient d (nextRef s1) (s1\<lparr>nextRef := Suc (nextRef s1)\<rparr>))"

definition configureProvider ::
    "deps \<Rightarrow> jsval \<Rightarrow> jsval \<Rightarrow> jsval \<Rightarrow> controller \<Rightarrow> outcome \<times> controller" where
  "configureProvider d type rpcUrl chainId s =
     (let isInfura = (type \<in> set (map JStr (INFURA_PROVIDER_TYPES d)))
      in if isInfura then configureInfuraProvider d type (infuraProjectId s) s
         else if type = JStr (NETWORK_TYPE_RPC d) then configureStandardProvider d rpcUrl chainId s
         else (Threw (UnknownProviderType type), s))"

definition initializeProvider :: "deps \<Rightarrow> jsval \<Rightarrow> controller \<Rightarrow> outcome \<times> controller" where
  "initializeProvider d providerParams s =
     (let s1 = s\<lparr>baseProviderParams := providerParams\<rparr>;
          cfg = getProviderConfig s1
      in case configureProvider d (getProp (c_type cfg)) (getProp (c_rpcUrl cfg))
                (getProp (c_chainId cfg)) s1 of
           (Threw e, s2) \<Rightarrow> (Threw e, s2)
         | (Returned, s2) \<Rightarrow> (Returned, lookupNetwork d s2))"

definition switchNetwork :: "deps \<Rightarrow> providerConfig \<Rightarrow> controller \<Rightarrow> outcome \<times> controller" where
  "switchNetwork d opts s =
     (let s1 = emit d NETWORK_WILL_CHANGE JUndefined s;
          s2 = setNetworkState loading s1
      in case configureProvider d (getProp (c_type opts)) (getProp (c_rpcUrl opts))
                (getProp (c_chainId opts)) s2 of
           (Threw e, s3) \<Rightarrow> (Threw e, s3)
         | (Returned, s3) \<Rightarrow> (Returned, emit d NETWORK_DID_CHANGE (getProp (c_type opts)) s3))"

definition setProviderConfig :: "deps \<Rightarrow> providerConfig \<Rightarrow> controller \<Rightarrow> outcome \<times> controller" where
  "setProviderConfig d config s =
     (let previous = updateState (previousProviderStore s) (getProviderConfig s);
          s1 = record_effect (PreviousProviderStatePut previous)
                 (s\<lparr>previousProviderStore := previous\<rparr>);
          current = updateState (providerStore s1) config;
          s2 = record_effect (ProviderStatePut current) (s1\<lparr>providerStore := current\<rparr>)
      in switchNetwork d config s2)"

definition rollbackToPreviousProvider :: "deps \<Rightarrow> controller \<Rightarrow> outcome \<times> controller" where
  "rollbackToPreviousProvider d s =
     (let config = previousProviderStore s;
          current = updateState (providerStore s) config;
          s1 = record_effect (ProviderStatePut current) (s\<lparr>providerStore := current\<rparr>)
      in switchNetwork d config s1)"

definition resetConnection :: "deps \<Rightarrow> controller \<Rightarrow> outcome \<times> controller" where
  "resetConnection d s = setProviderConfig d (getProviderConfig s) s"

text \<open>
  \<^verbatim>\<open>setRpcTarget(rpcUrl, chainId, ticker = 'STC', nickname = '', rpcPrefs)\<close>, for a
  \<^verbatim>\<open>chainId\<close> that is a string.
\<close>

definition setRpcTarget ::
    "deps \<Rightarrow> jsval \<Rightarrow> string \<Rightarrow> jsval \<Rightarrow> jsval \<Rightarrow> jsval \<Rightarrow> controller \<Rightarrow> outcome \<times> controller" where
  "setRpcTarget d rpcUrl chainId ticker nickname rpcPrefs s =
     (if \<not> isPrefixedFormattedHexString d chainId then
        (Threw (AssertionError (InvalidHexString chainId)), s)
      else if \<not> isSafeChainId d (parseInt16 chainId) then
        (Threw (AssertionError (UnsafeChainId chainId)), s)
      else
        setProviderConfig d
          \<lparr> c_type = Some (JStr (NETWORK_TYPE_RPC d)),
            c_rpcUrl = Some rpcUrl,
            c_chainId = Some (JStr chainId),
            c_ticker = Some (default_arg (JStr ''STC'') ticker),
            c_nickname = Some (default_arg (JStr []) nickname),
            c_rpcPrefs = Some rpcPrefs \<rparr>
          s)"

text \<open>
  \<^verbatim>\<open>setProviderType(type, rpcUrl = '', ticker = 'STC', nickname = '')\<close>. The method is
  \<^verbatim>\<open>async\<close> and awaits nothing: its body runs at the call, and what it throws rejects
  the promise it returns.
\<close>

definition setProviderType ::
    "deps \<Rightarrow> jsval \<Rightarrow> jsval \<Rightarrow> jsval \<Rightarrow> jsval \<Rightarrow> controller \<Rightarrow> outcome \<times> controller" where
  "setProviderType d type rpcUrl ticker nickname s =
     (if type = JStr (NETWORK_TYPE_RPC d) then
        (Threw (AssertionError CalledWithRpcType), s)
      else if type \<notin> set (map JStr (INFURA_PROVIDER_TYPES d)) then
        (Threw (AssertionError (UnknownInfuraProviderType type)), s)
      else
        (case NETWORK_TYPE_TO_ID_MAP d (toString type) of
           None \<Rightarrow> (Threw TypeError, s)
         | Some chainId \<Rightarrow>
             setProviderConfig d
               \<lparr> c_type = Some type,
                 c_rpcUrl = Some (default_arg (JStr []) rpcUrl),
                 c_chainId = Some chainId,
                 c_ticker = Some (default_arg (JStr ''STC'') ticker),
                 c_nickname = Some (default_arg (JStr []) nickname),
                 c_rpcPrefs = None \<rparr>
               s))"

definition getNetworkIdentifier :: "deps \<Rightarrow> controller \<Rightarrow> jsval" where
  "getNetworkIdentifier d s =
     (if getProp (c_type (providerStore s)) = JStr (NETWORK_TYPE_RPC d)
      then getProp (c_rpcUrl (providerStore s))
      else getProp (c_type (providerStore s)))"

text \<open>The four methods that switch the network, as one call.\<close>

datatype switch =
    SetRpcTarget jsval string jsval jsval jsval
  | SetProviderType jsval jsval jsval jsval
  | ResetConnection
  | RollbackToPreviousProvider

fun do_switch :: "deps \<Rightarrow> switch \<Rightarrow> controller \<Rightarrow> outcome \<times> controller" where
  "do_switch d (SetRpcTarget rpcUrl chainId ticker nickname rpcPrefs) s =
     setRpcTarget d rpcUrl chainId ticker nickname rpcPrefs s"
| "do_switch d (SetProviderType type rpcUrl ticker nickname) s =
     setProviderType d type rpcUrl ticker nickname s"
| "do_switch d ResetConnection s = resetConnection d s"
| "do_switch d RollbackToPreviousProvider s = rollbackToPreviousProvider d s"

subsection \<open>Sequences of calls and responses\<close>

text \<open>
  What can happen to a controller after its construction: a call of a method, or the
  arrival of the response to a probe in flight. A caller that catches what a method
  throws goes on with the controller as the method left it. The accessors change
  nothing, and \<^verbatim>\<open>setNetworkState\<close> is called by the controller's own methods: neither
  is an action.
\<close>

datatype action =
    Switch switch
  | InitializeProvider jsval
  | SetInfuraProjectId jsval
  | VerifyNetwork
  | LookupNetwork
  | Response nat jsval jsval

fun perform :: "deps \<Rightarrow> action \<Rightarrow> controller \<Rightarrow> controller" where
  "perform d (Switch c) s = snd (do_switch d c s)"
| "perform d (InitializeProvider providerParams) s = snd (initializeProvider d providerParams s)"
| "perform d (SetInfuraProjectId projectId) s = snd (setInfuraProjectId projectId s)"
| "perform d VerifyNetwork s = verifyNetwork d s"
| "perform d LookupNetwork s = lookupNetwork d s"
| "perform d (Response i err networkVersion) s = deliverResponse i err networkVersion s"

definition run :: "deps \<Rightarrow> action list \<Rightarrow> controller \<Rightarrow> controller" where
  "run d acts s = foldl (\<lambda>acc a. perform d a acc) s acts"

text \<open>The chain versions that the responses without an error reported.\<close>

fun reported :: "action list \<Rightarrow> jsval list" where
  "reported [] = []"
| "reported (Response i err networkVersion # acts) =
     (if truthy err then reported acts else networkVersion # reported acts)"
| "reported (a # acts) = reported acts"

subsection \<open>Properties of a configuration\<close>

fun covers :: "jsval option \<Rightarrow> jsval option \<Rightarrow> bool" where
  "covers None q = True"
| "covers (Some v) None = False"
| "covers (Some v) (Some w) = True"

text \<open>Every property of \<open>p\<close> is a property of \<open>c\<close>.\<close>

definition props_within :: "providerConfig \<Rightarrow> providerConfig \<Rightarrow> bool" where
  "props_within p c =
     (covers (c_type p) (c_type c) \<and> covers (c_rpcUrl p) (c_rpcUrl c) \<and>
      covers (c_chainId p) (c_chainId c) \<and> covers (c_ticker p) (c_ticker c) \<and>
      covers (c_nickname p) (c_nickname c) \<and> covers (c_rpcPrefs p) (c_rpcPrefs c))"

text \<open>Every property of \<open>p\<close> is a property of \<open>c\<close> with the same value.\<close>

fun same_prop :: "jsval option \<Rightarrow> jsval option \<Rightarrow> bool" where
  "same_prop None q = True"
| "same_prop (Some v) q = (q = Some v)"

definition props_kept :: "providerConfig \<Rightarrow> providerConfig \<Rightarrow> bool" where
  "props_kept p c =
     (same_prop (c_type p) (c_type c) \<and> same_prop (c_rpcUrl p) (c_rpcUrl c) \<and>
      same_prop (c_chainId p) (c_chainId c) \<and> same_prop (c_ticker p) (c_ticker c) \<and>
      same_prop (c_nickname p) (c_nickname c) \<and> same_prop (c_rpcPrefs p) (c_rpcPrefs c))"

text \<open>
  The retained previous configuration has no property that the current one lacks. It
  holds of a new controller and every method keeps it (\<open>run_invariants\<close> below).
\<close>

definition history_within :: "controller \<Rightarrow> bool" where
  "history_within s = props_within (previousProviderStore s) (providerStore s)"

subsection \<open>An instance of the imported parts\<close>

text \<open>
  Modelled from the spec: \<^verbatim>\<open>isPrefixedFormattedHexString\<close> of
  \<^verbatim>\<open>shared/modules/network.utils\<close>, which is not among the sources. The spec asks for a
  0x-prefixed hex string.
\<close>

definition spec_isPrefixedFormattedHexString :: "string \<Rightarrow> bool" where
  "spec_isPrefixedFormattedHexString s =
     (case s of
        a # b # rest \<Rightarrow>
          a = CHR ''0'' \<and> b = CHR ''x'' \<and> rest \<noteq> [] \<and> list_all (\<lambda>c. hexDigit c \<noteq> None) rest
      | _ \<Rightarrow> False)"

text \<open>
  Modelled from the spec: \<^verbatim>\<open>isSafeChainId\<close> of \<^verbatim>\<open>shared/modules/network.utils\<close>, which is
  not among the sources. The spec asks for a number within the safe-integer bound, which
  is \<open>2 ^ 53 - 1\<close>.
\<close>

definition spec_isSafeChainId :: "jsnum \<Rightarrow> bool" where
  "spec_isSafeChainId n =
     (case n of
        Finite i \<Rightarrow> - 9007199254740991 \<le> i \<and> i \<le> 9007199254740991
      | _ \<Rightarrow> False)"

text \<open>
  Modelled from the spec: the constants of \<^verbatim>\<open>shared/constants/network\<close> and the
  constructors \<^verbatim>\<open>createInfuraClient\<close>, \<^verbatim>\<open>createJsonRpcClient\<close> and
  \<^verbatim>\<open>createMetamaskMiddleware\<close>, which are not among the sources. The managed endpoint
  \<^verbatim>\<open>main\<close> has the chain id \<^verbatim>\<open>0x1\<close> and the sentinel of custom endpoints is
  \<^verbatim>\<open>customRpcSentinel\<close>, as in the spec; a second managed endpoint stands for the rest
  of the closed set. No constructor does any input or output, and the one of managed
  endpoints fails when no credential has been set. The process environment is that of
  a production build.
\<close>

definition spec_deps :: deps where
  "spec_deps =
     \<lparr> BARNARD = ''barnard'',
       MAINNET = ''main'',
       INFURA_PROVIDER_TYPES = [''main'', ''barnard''],
       NETWORK_TYPE_RPC = ''customRpcSentinel'',
       NETWORK_TYPE_TO_ID_MAP =
         (\<lambda>name. if name = ''main'' then Some (JStr ''0x1'')
                  else if name = ''barnard'' then Some (JStr ''0xfb'')
                  else None),
       MAINNET_CHAIN_ID = ''0x1'',
       BARNARD_CHAIN_ID = ''0xfb'',
       isPrefixedFormattedHexString = spec_isPrefixedFormattedHexString,
       isSafeChainId = spec_isSafeChainId,
       createMetamaskMiddleware = (\<lambda>providerParams. None),
       createInfuraClient =
         (\<lambda>network projectId.
            if truthy projectId then None
            else Some (CollaboratorError ''unconfigured credential'')),
       createJsonRpcClient = (\<lambda>rpcUrl chainId. None),
       env_IN_TEST = JUndefined,
       env_STARMASK_DEBUG = JUndefined,
       env_METAMASK_ENV = JUndefined \<rparr>"

subsection \<open>Predicates on controllers and effects\<close>

text \<open>
  The standing subscription: the one listener that the constructor registers, and
  nothing else. No method registers or removes a listener.
\<close>

definition subscribed :: "controller \<Rightarrow> bool" where
  "subscribed s = (listeners s = [(NETWORK_DID_CHANGE, LookupNetworkHandler)])"


text \<open>The effect is an update of one of the two configuration stores.\<close>

fun storePut :: "effect \<Rightarrow> bool" where
  "storePut (ProviderStatePut c) = True"
| "storePut (PreviousProviderStatePut c) = True"
| "storePut e = False"

subsection \<open>A concrete run\<close>

text \<open>
  A controller on the instance above, after the credential has been set and the provider
  initialised: it is connected to the managed endpoint \<^verbatim>\<open>main\<close>, its proxies exist and
  its first probe is in flight. Then two custom endpoints to switch to.
\<close>

definition demo_ready :: controller where
  "demo_ready =
     snd (initializeProvider spec_deps (JObj 0)
            (snd (setInfuraProjectId (JStr ''project-id'') (constructor spec_deps None))))"

definition demo_custom :: switch where
  "demo_custom =
     SetRpcTarget (JStr ''http://localhost:9850'') ''0xfe'' JUndefined JUndefined JUndefined"

definition demo_other :: switch where
  "demo_other =
     SetRpcTarget (JStr ''http://localhost:9851'') ''0xfd'' JUndefined JUndefined JUndefined"

text \<open>The configuration of a third custom endpoint, as \<^verbatim>\<open>setRpcTarget\<close> builds it.\<close>

definition demo_config :: providerConfig where
  "demo_config =
     \<lparr> c_type = Some (JStr ''customRpcSentinel''),
       c_rpcUrl = Some (JStr ''http://localhost:9852''),
       c_chainId = Some (JStr ''0xfc''),
       c_ticker = Some (JStr ''STC''),
       c_nickname = Some (JStr []),
       c_rpcPrefs = Some JUndefined \<rparr>"

section \<open>What each method leaves unchanged\<close>

lemmas prim_defs = record_effect_def setNetworkState_def getNetworkState_def getProviderConfig_def

lemma lookupNetwork_frame:
  "providerStore (lookupNetwork d s) = providerStore s"
  "previousProviderStore (lookupNetwork d s) = previousProviderStore s"
  "provider (lookupNetwork d s) = provider s"
  "blockTracker (lookupNetwork d s) = blockTracker s"
  "providerProxy (lookupNetwork d s) = providerProxy s"
  "blockTrackerProxy (lookupNetwork d s) = blockTrackerProxy s"
  "infuraProjectId (lookupNetwork d s) = infuraProjectId s"
  "baseProviderParams (lookupNetwork d s) = baseProviderParams s"
  "listeners (lookupNetwork d s) = listeners s"
  "nextRef (lookupNetwork d s) = nextRef s"
  by (simp_all add: lookupNetwork_def prim_defs Let_def split: option.splits)

lemma lookupNetwork_networkStore:
  "networkStore (lookupNetwork d s) =
     (if provider s \<noteq> None \<and> \<not> truthy (getCurrentChainId d s) then loading else networkStore s)"
  by (simp add: lookupNetwork_def prim_defs Let_def split: option.splits)

lemma lookupNetwork_keeps_loading:
  "networkStore s = loading \<Longrightarrow> networkStore (lookupNetwork d s) = loading"
  by (simp add: lookupNetwork_networkStore)

lemma getCurrentChainId_cong:
  "providerStore s' = providerStore s \<Longrightarrow> getCurrentChainId d s' = getCurrentChainId d s"
  by (simp add: getCurrentChainId_def getProviderConfig_def)

lemma run_handlers_frame:
  "providerStore (foldl (\<lambda>acc h. run_handler d h acc) s hs) = providerStore s \<and>
   previousProviderStore (foldl (\<lambda>acc h. run_handler d h acc) s hs) = previousProviderStore s \<and>
   provider (foldl (\<lambda>acc h. run_handler d h acc) s hs) = provider s \<and>
   blockTracker (foldl (\<lambda>acc h. run_handler d h acc) s hs) = blockTracker s \<and>
   providerProxy (foldl (\<lambda>acc h. run_handler d h acc) s hs) = providerProxy s \<and>
   blockTrackerProxy (foldl (\<lambda>acc h. run_handler d h acc) s hs) = blockTrackerProxy s \<and>
   infuraProjectId (foldl (\<lambda>acc h. run_handler d h acc) s hs) = infuraProjectId s \<and>
   baseProviderParams (foldl (\<lambda>acc h. run_handler d h acc) s hs) = baseProviderParams s \<and>
   listeners (foldl (\<lambda>acc h. run_handler d h acc) s hs) = listeners s \<and>
   nextRef (foldl (\<lambda>acc h. run_handler d h acc) s hs) = nextRef s"
proof (induction hs arbitrary: s)
  case Nil
  show ?case by simp
next
  case (Cons h hs)
  show ?case by (cases h) (simp add: Cons.IH lookupNetwork_frame)
qed

lemma run_handlers_loading:
  "networkStore s = loading \<Longrightarrow>
   networkStore (foldl (\<lambda>acc h. run_handler d h acc) s hs) = loading"
proof (induction hs arbitrary: s)
  case Nil
  then show ?case by simp
next
  case (Cons h hs)
  then show ?case by (cases h) (simp add: lookupNetwork_keeps_loading)
qed

lemma emit_frame:
  "providerStore (emit d name arg s) = providerStore s"
  "previousProviderStore (emit d name arg s) = previousProviderStore s"
  "provider (emit d name arg s) = provider s"
  "blockTracker (emit d name arg s) = blockTracker s"
  "providerProxy (emit d name arg s) = providerProxy s"
  "blockTrackerProxy (emit d name arg s) = blockTrackerProxy s"
  "infuraProjectId (emit d name arg s) = infuraProjectId s"
  "baseProviderParams (emit d name arg s) = baseProviderParams s"
  "listeners (emit d name arg s) = listeners s"
  "nextRef (emit d name arg s) = nextRef s"
  by (simp_all add: emit_def run_handlers_frame record_effect_def)

lemma emit_keeps_loading:
  "networkStore s = loading \<Longrightarrow> networkStore (emit d name arg s) = loading"
  by (simp add: emit_def run_handlers_loading record_effect_def)

lemmas configure_defs = configureProvider_def configureInfuraProvider_def
  configureStandardProvider_def setNetworkClient_def

lemma setProviderAndBlockTracker_frame:
  "providerStore (setProviderAndBlockTracker p bt s) = providerStore s"
  "previousProviderStore (setProviderAndBlockTracker p bt s) = previousProviderStore s"
  "networkStore (setProviderAndBlockTracker p bt s) = networkStore s"
  "infuraProjectId (setProviderAndBlockTracker p bt s) = infuraProjectId s"
  "baseProviderParams (setProviderAndBlockTracker p bt s) = baseProviderParams s"
  "listeners (setProviderAndBlockTracker p bt s) = listeners s"
  "inFlight (setProviderAndBlockTracker p bt s) = inFlight s"
  "provider (setProviderAndBlockTracker p bt s) = Some p"
  "blockTracker (setProviderAndBlockTracker p bt s) = Some bt"
  by (simp_all add: setProviderAndBlockTracker_def record_effect_def Let_def split: option.splits)

lemma setProviderAndBlockTracker_proxies:
  "providerProxy (setProviderAndBlockTracker p bt s) =
     Some (case providerProxy s of
             Some px \<Rightarrow> px\<lparr>proxy_target := p\<rparr>
           | None \<Rightarrow> \<lparr>proxy_ref = nextRef s, proxy_target = p\<rparr>)"
  "blockTrackerProxy (setProviderAndBlockTracker p bt s) =
     Some (case blockTrackerProxy s of
             Some bx \<Rightarrow> bx\<lparr>proxy_target := bt\<rparr>
           | None \<Rightarrow> \<lparr>proxy_ref = (case providerProxy s of Some px \<Rightarrow> nextRef s | None \<Rightarrow> Suc (nextRef s)),
                       proxy_target = bt\<rparr>)"
  by (simp_all add: setProviderAndBlockTracker_def record_effect_def Let_def split: option.splits)


lemma setProviderAndBlockTracker_nextRef:
  "nextRef s \<le> nextRef (setProviderAndBlockTracker p bt s)"
  by (simp add: setProviderAndBlockTracker_def record_effect_def Let_def split: option.splits)

lemma configureProvider_frame:
  "providerStore (snd (configureProvider d t u c s)) = providerStore s"
  "previousProviderStore (snd (configureProvider d t u c s)) = previousProviderStore s"
  "networkStore (snd (configureProvider d t u c s)) = networkStore s"
  "infuraProjectId (snd (configureProvider d t u c s)) = infuraProjectId s"
  "baseProviderParams (snd (configureProvider d t u c s)) = baseProviderParams s"
  "listeners (snd (configureProvider d t u c s)) = listeners s"
  "inFlight (snd (configureProvider d t u c s)) = inFlight s"
  by (simp_all add: configure_defs setProviderAndBlockTracker_frame record_effect_def Let_def
      split: option.splits)

lemma configureProvider_shape:
  assumes "configureProvider d t u c s = (Returned, s')"
  shows "\<exists>m a. s' = setProviderAndBlockTracker (Suc (nextRef s)) (nextRef s)
                       ((record_effect (LogInfo m a) s)\<lparr>nextRef := Suc (Suc (nextRef s))\<rparr>)"
  using assms
  by (auto simp: configure_defs record_effect_def Let_def split: option.splits if_splits)


lemma configureProvider_proxy_refs:
  assumes "configureProvider d t u c s = (Returned, s')"
  shows "providerProxy s = Some px \<Longrightarrow> map_option proxy_ref (providerProxy s') = Some (proxy_ref px)"
    and "blockTrackerProxy s = Some bx \<Longrightarrow> map_option proxy_ref (blockTrackerProxy s') = Some (proxy_ref bx)"
  using configureProvider_shape [OF assms]
  by (auto simp: setProviderAndBlockTracker_proxies record_effect_def)

lemma configureProvider_fresh:
  assumes "configureProvider d t u c s = (Returned, s')"
  shows "provider s' = Some (Suc (nextRef s))" and "Suc (Suc (nextRef s)) \<le> nextRef s'"
proof -
  from configureProvider_shape [OF assms] obtain m a where
    s': "s' = setProviderAndBlockTracker (Suc (nextRef s)) (nextRef s)
                ((record_effect (LogInfo m a) s)\<lparr>nextRef := Suc (Suc (nextRef s))\<rparr>)"
    by blast
  show "provider s' = Some (Suc (nextRef s))"
    unfolding s' by (simp add: setProviderAndBlockTracker_frame)
  show "Suc (Suc (nextRef s)) \<le> nextRef s'"
    unfolding s'
    using setProviderAndBlockTracker_nextRef
      [of "(record_effect (LogInfo m a) s)\<lparr>nextRef := Suc (Suc (nextRef s))\<rparr>"
          "Suc (nextRef s)" "nextRef s"]
    by (simp add: record_effect_def)
qed

lemma emit_will_subscribed:
  "subscribed s \<Longrightarrow>
   emit d NETWORK_WILL_CHANGE arg s = record_effect (Emitted NETWORK_WILL_CHANGE arg) s"
  by (simp add: emit_def subscribed_def NETWORK_WILL_CHANGE_def NETWORK_DID_CHANGE_def
      record_effect_def)

lemma emit_did_subscribed:
  "subscribed s \<Longrightarrow>
   emit d NETWORK_DID_CHANGE arg s =
     lookupNetwork d (record_effect (Emitted NETWORK_DID_CHANGE arg) s)"
  by (simp add: emit_def subscribed_def record_effect_def)

lemma switchNetwork_cases:
  "(\<exists>e. switchNetwork d opts s =
          (Threw e, snd (configureProvider d (getProp (c_type opts)) (getProp (c_rpcUrl opts))
                           (getProp (c_chainId opts))
                           (setNetworkState loading (emit d NETWORK_WILL_CHANGE JUndefined s)))) \<and>
        fst (configureProvider d (getProp (c_type opts)) (getProp (c_rpcUrl opts))
               (getProp (c_chainId opts))
               (setNetworkState loading (emit d NETWORK_WILL_CHANGE JUndefined s))) = Threw e) \<or>
   (\<exists>s3. configureProvider d (getProp (c_type opts)) (getProp (c_rpcUrl opts))
            (getProp (c_chainId opts))
            (setNetworkState loading (emit d NETWORK_WILL_CHANGE JUndefined s)) = (Returned, s3) \<and>
         switchNetwork d opts s =
           (Returned, emit d NETWORK_DID_CHANGE (getProp (c_type opts)) s3))"
  by (auto simp: switchNetwork_def Let_def split: prod.splits outcome.splits)

lemma switchNetwork_Returned:
  assumes "switchNetwork d opts s = (Returned, s')"
  shows "\<exists>s3. configureProvider d (getProp (c_type opts)) (getProp (c_rpcUrl opts))
                 (getProp (c_chainId opts))
                 (setNetworkState loading (emit d NETWORK_WILL_CHANGE JUndefined s)) = (Returned, s3) \<and>
              s' = emit d NETWORK_DID_CHANGE (getProp (c_type opts)) s3"
  using assms switchNetwork_cases [of d opts s] by auto

lemma switchNetwork_frame:
  "providerStore (snd (switchNetwork d opts s)) = providerStore s"
  "previousProviderStore (snd (switchNetwork d opts s)) = previousProviderStore s"
  "listeners (snd (switchNetwork d opts s)) = listeners s"
  "infuraProjectId (snd (switchNetwork d opts s)) = infuraProjectId s"
  "baseProviderParams (snd (switchNetwork d opts s)) = baseProviderParams s"
  "networkStore (snd (switchNetwork d opts s)) = loading"
  using switchNetwork_cases [of d opts s]
  by (auto simp: emit_frame configureProvider_frame setNetworkState_def record_effect_def
      emit_keeps_loading
      dest!: arg_cong [where f = "\<lambda>r. snd r"])

lemma updateState_effects_frame:
  "listeners (record_effect e s) = listeners s"
  "inFlight (record_effect e s) = inFlight s"
  "nextRef (record_effect e s) = nextRef s"
  "providerProxy (record_effect e s) = providerProxy s"
  "blockTrackerProxy (record_effect e s) = blockTrackerProxy s"
  "providerStore (record_effect e s) = providerStore s"
  "previousProviderStore (record_effect e s) = previousProviderStore s"
  "networkStore (record_effect e s) = networkStore s"
  "provider (record_effect e s) = provider s"
  "effects (record_effect e s) = effects s @ [e]"
  by (simp_all add: record_effect_def)

text \<open>A method that switches updates the stores and then runs switchNetwork.\<close>

lemma setProviderConfig_as_switch:
  "\<exists>s0 ups. setProviderConfig d config s = switchNetwork d config s0 \<and>
     listeners s0 = listeners s \<and> inFlight s0 = inFlight s \<and> nextRef s0 = nextRef s \<and>
     providerProxy s0 = providerProxy s \<and> blockTrackerProxy s0 = blockTrackerProxy s \<and>
     provider s0 = provider s \<and> infuraProjectId s0 = infuraProjectId s \<and>
     baseProviderParams s0 = baseProviderParams s \<and>
     networkStore s0 = networkStore s \<and>
     previousProviderStore s0 = updateState (previousProviderStore s) (providerStore s) \<and>
     providerStore s0 = updateState (providerStore s) config \<and>
     effects s0 = effects s @ ups \<and> list_all storePut ups"
  by (rule exI [of _
        "s\<lparr>previousProviderStore := updateState (previousProviderStore s) (providerStore s),
           providerStore := updateState (providerStore s) config,
           effects := effects s @
             [PreviousProviderStatePut (updateState (previousProviderStore s) (providerStore s)),
              ProviderStatePut (updateState (providerStore s) config)]\<rparr>"],
      rule exI [of _
        "[PreviousProviderStatePut (updateState (previousProviderStore s) (providerStore s)),
          ProviderStatePut (updateState (providerStore s) config)]"])
    (simp add: setProviderConfig_def Let_def record_effect_def getProviderConfig_def)

lemma rollback_as_switch:
  "\<exists>s0 ups. rollbackToPreviousProvider d s = switchNetwork d (previousProviderStore s) s0 \<and>
     listeners s0 = listeners s \<and> inFlight s0 = inFlight s \<and> nextRef s0 = nextRef s \<and>
     providerProxy s0 = providerProxy s \<and> blockTrackerProxy s0 = blockTrackerProxy s \<and>
     provider s0 = provider s \<and> infuraProjectId s0 = infuraProjectId s \<and>
     baseProviderParams s0 = baseProviderParams s \<and>
     networkStore s0 = networkStore s \<and>
     previousProviderStore s0 = previousProviderStore s \<and>
     providerStore s0 = updateState (providerStore s) (previousProviderStore s) \<and>
     effects s0 = effects s @ ups \<and> list_all storePut ups"
  by (rule exI [of _
        "s\<lparr>providerStore := updateState (providerStore s) (previousProviderStore s),
           effects := effects s @
             [ProviderStatePut (updateState (providerStore s) (previousProviderStore s))]\<rparr>"],
      rule exI [of _
        "[ProviderStatePut (updateState (providerStore s) (previousProviderStore s))]"])
    (simp add: rollbackToPreviousProvider_def Let_def record_effect_def)

text \<open>A method that switches either throws before it touches anything or reaches switchNetwork.\<close>

lemma do_switch_cases:
  "(\<exists>e. do_switch d c s = (Threw e, s)) \<or>
   (\<exists>opts s0 ups. do_switch d c s = switchNetwork d opts s0 \<and>
      listeners s0 = listeners s \<and> inFlight s0 = inFlight s \<and> nextRef s0 = nextRef s \<and>
      providerProxy s0 = providerProxy s \<and> blockTrackerProxy s0 = blockTrackerProxy s \<and>
      provider s0 = provider s \<and> infuraProjectId s0 = infuraProjectId s \<and>
      baseProviderParams s0 = baseProviderParams s \<and>
      networkStore s0 = networkStore s \<and>
      effects s0 = effects s @ ups \<and> list_all storePut ups)"
proof (cases c)
  case (SetRpcTarget rpcUrl chainId ticker nickname rpcPrefs)
  show ?thesis
    using setProviderConfig_as_switch [of d _ s]
    unfolding SetRpcTarget do_switch.simps setRpcTarget_def
    by (cases "isPrefixedFormattedHexString d chainId";
        cases "isSafeChainId d (parseInt16 chainId)") (simp_all, blast+)
next
  case (SetProviderType type rpcUrl ticker nickname)
  show ?thesis
    using setProviderConfig_as_switch [of d _ s]
    unfolding SetProviderType do_switch.simps setProviderType_def
    by (cases "type = JStr (NETWORK_TYPE_RPC d)";
        cases "type \<in> set (map JStr (INFURA_PROVIDER_TYPES d))";
        cases "NETWORK_TYPE_TO_ID_MAP d (toString type)") (simp_all, blast+)
next
  case ResetConnection
  show ?thesis
    using setProviderConfig_as_switch [of d "getProviderConfig s" s]
    unfolding ResetConnection do_switch.simps resetConnection_def by blast
next
  case RollbackToPreviousProvider
  show ?thesis
    using rollback_as_switch [of d s]
    unfolding RollbackToPreviousProvider do_switch.simps by blast
qed

lemma do_switch_Returned:
  assumes "do_switch d c s = (Returned, s')"
  shows "\<exists>opts s0 ups. switchNetwork d opts s0 = (Returned, s') \<and>
           listeners s0 = listeners s \<and> inFlight s0 = inFlight s \<and> nextRef s0 = nextRef s \<and>
           providerProxy s0 = providerProxy s \<and> blockTrackerProxy s0 = blockTrackerProxy s \<and>
           effects s0 = effects s @ ups \<and> list_all storePut ups"
proof -
  from do_switch_cases [of d c s] assms
  obtain opts s0 ups where
    "do_switch d c s = switchNetwork d opts s0"
    "listeners s0 = listeners s" "inFlight s0 = inFlight s" "nextRef s0 = nextRef s"
    "providerProxy s0 = providerProxy s" "blockTrackerProxy s0 = blockTrackerProxy s"
    "effects s0 = effects s @ ups" "list_all storePut ups"
    by auto
  with assms show ?thesis by metis
qed

lemma switchNetwork_issues_probe:
  assumes sub: "subscribed s"
    and sw: "switchNetwork d opts s = (Returned, s')"
    and cid: "truthy (getCurrentChainId d s')"
  shows "\<exists>p. provider s' = Some p \<and> nextRef s < p \<and> p < nextRef s' \<and>
             inFlight s' = inFlight s @ [\<lparr>initialNetwork = loading, sentVia = p\<rparr>] \<and>
             networkStore s' = loading \<and> subscribed s'"
proof -
  let ?s2 = "setNetworkState loading (emit d NETWORK_WILL_CHANGE JUndefined s)"
  from switchNetwork_Returned [OF sw] obtain s3 where
    conf: "configureProvider d (getProp (c_type opts)) (getProp (c_rpcUrl opts))
             (getProp (c_chainId opts)) ?s2 = (Returned, s3)"
    and s': "s' = emit d NETWORK_DID_CHANGE (getProp (c_type opts)) s3"
    by blast
  have fr: "listeners s3 = listeners s" "inFlight s3 = inFlight ?s2" "networkStore s3 = loading"
    using configureProvider_frame [of d "getProp (c_type opts)" "getProp (c_rpcUrl opts)"
        "getProp (c_chainId opts)" ?s2] conf
    by (simp_all add: setNetworkState_def record_effect_def emit_frame)
  have in2: "inFlight ?s2 = inFlight s"
    using sub by (simp add: emit_will_subscribed setNetworkState_def record_effect_def)
  have n2: "nextRef ?s2 = nextRef s"
    by (simp add: setNetworkState_def record_effect_def emit_frame)
  have sub3: "subscribed s3" using sub fr by (simp add: subscribed_def)
  let ?s4 = "record_effect (Emitted NETWORK_DID_CHANGE (getProp (c_type opts))) s3"
  have s'': "s' = lookupNetwork d ?s4"
    using s' sub3 by (simp add: emit_did_subscribed)
  have p3: "provider s3 = Some (Suc (nextRef s))" "Suc (Suc (nextRef s)) \<le> nextRef s3"
    using configureProvider_fresh [OF conf] n2 by simp_all
  have "getCurrentChainId d ?s4 = getCurrentChainId d s'"
    unfolding s'' by (rule sym, rule getCurrentChainId_cong) (simp add: lookupNetwork_frame)
  with cid have cid4: "truthy (getCurrentChainId d ?s4)" by simp
  have "provider ?s4 = Some (Suc (nextRef s))" using p3 by (simp add: record_effect_def)
  with cid4 fr in2 p3 sub3 show ?thesis
    unfolding s''
    by (simp add: lookupNetwork_def Let_def record_effect_def getNetworkState_def subscribed_def)
qed

lemma do_switch_issues_probe:
  assumes sub: "subscribed s"
    and sw: "do_switch d c s = (Returned, s')"
    and cid: "truthy (getCurrentChainId d s')"
  shows "\<exists>p. provider s' = Some p \<and> nextRef s < p \<and> p < nextRef s' \<and>
             inFlight s' = inFlight s @ [\<lparr>initialNetwork = loading, sentVia = p\<rparr>] \<and>
             networkStore s' = loading \<and> subscribed s'"
proof -
  from do_switch_Returned [OF sw] obtain opts s0 where
    sw0: "switchNetwork d opts s0 = (Returned, s')"
    and fr: "listeners s0 = listeners s" "inFlight s0 = inFlight s" "nextRef s0 = nextRef s"
    by blast
  have "subscribed s0" using sub fr by (simp add: subscribed_def)
  from switchNetwork_issues_probe [OF this sw0 cid] fr show ?thesis by simp
qed

lemma deliverResponse_stale:
  assumes "i < length (inFlight s)" and "initialNetwork (inFlight s ! i) \<noteq> networkStore s"
  shows "deliverResponse i err networkVersion s =
           s\<lparr>inFlight := take i (inFlight s) @ drop (Suc i) (inFlight s)\<rparr>"
  using assms by (simp add: deliverResponse_def lookupNetworkCallback_def getNetworkState_def)

lemma deliverResponse_current:
  assumes "i < length (inFlight s)" and "initialNetwork (inFlight s ! i) = networkStore s"
  shows "deliverResponse i err networkVersion s =
           setNetworkState (if truthy err then loading else networkVersion)
             (s\<lparr>inFlight := take i (inFlight s) @ drop (Suc i) (inFlight s)\<rparr>)"
  using assms by (simp add: deliverResponse_def lookupNetworkCallback_def getNetworkState_def)

lemma configureProvider_standard_returns:
  assumes "NETWORK_TYPE_RPC d \<notin> set (INFURA_PROVIDER_TYPES d)"
    and "createJsonRpcClient d rpcUrl chainId = None"
    and "createMetamaskMiddleware d (baseProviderParams s) = None"
  shows "fst (configureProvider d (JStr (NETWORK_TYPE_RPC d)) rpcUrl chainId s) = Returned"
  using assms
  by (auto simp: configure_defs record_effect_def Let_def)

lemma switchNetwork_outcome:
  "fst (switchNetwork d opts s) =
     fst (configureProvider d (getProp (c_type opts)) (getProp (c_rpcUrl opts))
            (getProp (c_chainId opts))
            (setNetworkState loading (emit d NETWORK_WILL_CHANGE JUndefined s)))"
  by (simp add: switchNetwork_def Let_def split: prod.splits outcome.splits)

text \<open>What the methods that switch store.\<close>

lemma setProviderConfig_stores:
  "providerStore (snd (setProviderConfig d config s)) = updateState (providerStore s) config"
  "previousProviderStore (snd (setProviderConfig d config s)) =
     updateState (previousProviderStore s) (providerStore s)"
  using setProviderConfig_as_switch [of d config s]
  by (auto simp: switchNetwork_frame)

lemma rollback_stores:
  "providerStore (snd (rollbackToPreviousProvider d s)) =
     updateState (providerStore s) (previousProviderStore s)"
  "previousProviderStore (snd (rollbackToPreviousProvider d s)) = previousProviderStore s"
  using rollback_as_switch [of d s]
  by (auto simp: switchNetwork_frame)

section \<open>The trace of a switch\<close>

lemma constructor_subscribed: "subscribed (constructor d opts_provider)"
  by (simp add: subscribed_def constructor_def Let_def)




section \<open>The values of the network status\<close>

lemma deliverResponse_networkStore:
  "networkStore (deliverResponse i err networkVersion s) =
     (if i < length (inFlight s) \<and> initialNetwork (inFlight s ! i) = networkStore s
      then (if truthy err then loading else networkVersion)
      else networkStore s)"
  by (simp add: deliverResponse_def lookupNetworkCallback_def getNetworkState_def
      setNetworkState_def record_effect_def)

lemma do_switch_networkStore:
  "networkStore (snd (do_switch d c s)) = networkStore s \<or>
   networkStore (snd (do_switch d c s)) = loading"
  using do_switch_cases [of d c s] by (auto simp: switchNetwork_frame)

lemma initializeProvider_networkStore:
  "networkStore (snd (initializeProvider d providerParams s)) = networkStore s \<or>
   networkStore (snd (initializeProvider d providerParams s)) = loading"
proof -
  let ?s1 = "s\<lparr>baseProviderParams := providerParams\<rparr>"
  let ?r = "configureProvider d (getProp (c_type (providerStore s)))
              (getProp (c_rpcUrl (providerStore s))) (getProp (c_chainId (providerStore s))) ?s1"
  have n: "networkStore (snd ?r) = networkStore s"
    by (simp add: configureProvider_frame)
  have "snd (initializeProvider d providerParams s) = snd ?r \<or>
        snd (initializeProvider d providerParams s) = lookupNetwork d (snd ?r)"
    by (cases ?r) (auto simp: initializeProvider_def getProviderConfig_def Let_def
        split: outcome.splits)
  with n show ?thesis by (auto simp: lookupNetwork_networkStore)
qed

lemma perform_networkStore:
  "networkStore (perform d a s) \<in> set (loading # networkStore s # reported [a])"
proof (cases a)
  case (Switch c)
  then show ?thesis using do_switch_networkStore [of d c s] by auto
next
  case (InitializeProvider providerParams)
  then show ?thesis using initializeProvider_networkStore [of d providerParams s] by auto
next
  case (SetInfuraProjectId projectId)
  then show ?thesis by (auto simp: setInfuraProjectId_def split: jsval.splits)
next
  case VerifyNetwork
  then show ?thesis by (simp add: verifyNetwork_def lookupNetwork_networkStore)
next
  case LookupNetwork
  then show ?thesis by (simp add: lookupNetwork_networkStore)
next
  case (Response i err networkVersion)
  then show ?thesis by (simp add: deliverResponse_networkStore)
qed

lemma reported_append: "reported (xs @ ys) = reported xs @ reported ys"
  by (induction xs rule: reported.induct) simp_all

lemma run_networkStore:
  "networkStore (run d acts s) \<in> set (loading # networkStore s # reported acts)"
proof (induction acts rule: rev_induct)
  case Nil
  show ?case by (simp add: run_def)
next
  case (snoc a acts)
  have "run d (acts @ [a]) s = perform d a (run d acts s)" by (simp add: run_def)
  with perform_networkStore [of d a "run d acts s"] snoc show ?case
    by (auto simp: reported_append)
qed

section \<open>Merging configurations\<close>

lemma covers_refl: "covers p p"
  by (cases p) simp_all

lemma covers_assign: "covers p (assign_prop old new) = (covers p old \<or> covers p new)"
  by (cases p; cases old; cases new) (simp_all add: assign_prop_def)

lemma covers_assign_left: "covers (assign_prop a b) q = (covers a q \<and> covers b q)"
  by (cases a; cases b; cases q) (simp_all add: assign_prop_def)

lemma assign_prop_same: "assign_prop q q = q"
  by (cases q) (simp_all add: assign_prop_def)

lemma assign_prop_covered: "covers p c \<Longrightarrow> assign_prop p c = c"
  by (cases p; cases c) (simp_all add: assign_prop_def)

lemma assign_prop_back: "(assign_prop (assign_prop a c) a = a) = covers c a"
  by (cases a; cases c) (simp_all add: assign_prop_def)

lemma updateState_same: "updateState c c = c"
  by (simp add: updateState_def assign_prop_same)

lemma updateState_covered:
  "props_within p c \<Longrightarrow> updateState p c = c"
  by (simp add: updateState_def props_within_def assign_prop_covered)

lemma updateState_back:
  "(updateState (updateState a c) a = a) = props_within c a"
  by (cases a) (simp add: updateState_def props_within_def assign_prop_back)

lemma props_within_updateState:
  "props_within p c \<Longrightarrow> props_within (updateState p c) (updateState c config)"
  by (simp add: updateState_def props_within_def covers_assign covers_assign_left covers_refl)

lemma props_within_rollback:
  "props_within p (updateState c p)"
  by (simp add: updateState_def props_within_def covers_assign covers_refl)

section \<open>What holds of every controller\<close>

lemma props_kept_updateState: "props_kept p (updateState c p)"
proof -
  have "same_prop a (assign_prop b a)" for a b
    by (cases a) (simp_all add: assign_prop_def)
  then show ?thesis by (simp add: props_kept_def updateState_def)
qed

lemma setProviderConfig_keeps_history:
  "history_within s \<Longrightarrow> history_within (snd (setProviderConfig d config s))"
  by (simp add: history_within_def setProviderConfig_stores props_within_updateState)

lemma rollback_keeps_history:
  "history_within (snd (rollbackToPreviousProvider d s))"
  by (simp add: history_within_def rollback_stores props_within_rollback)

lemma do_switch_keeps_history:
  "history_within s \<Longrightarrow> history_within (snd (do_switch d c s))"
proof (cases c)
  case (SetRpcTarget rpcUrl chainId ticker nickname rpcPrefs)
  assume "history_within s"
  then show ?thesis
    unfolding SetRpcTarget do_switch.simps setRpcTarget_def
    by (simp add: setProviderConfig_keeps_history)
next
  case (SetProviderType type rpcUrl ticker nickname)
  assume "history_within s"
  then show ?thesis
    unfolding SetProviderType do_switch.simps setProviderType_def
    by (simp add: setProviderConfig_keeps_history split: option.splits)
next
  case ResetConnection
  assume "history_within s"
  then show ?thesis
    unfolding ResetConnection do_switch.simps resetConnection_def
    by (simp add: setProviderConfig_keeps_history)
next
  case RollbackToPreviousProvider
  show ?thesis
    unfolding RollbackToPreviousProvider do_switch.simps
    by (rule rollback_keeps_history)
qed

lemma do_switch_listeners: "listeners (snd (do_switch d c s)) = listeners s"
  using do_switch_cases [of d c s] by (auto simp: switchNetwork_frame)

lemma initializeProvider_frame:
  "providerStore (snd (initializeProvider d providerParams s)) = providerStore s"
  "previousProviderStore (snd (initializeProvider d providerParams s)) = previousProviderStore s"
  "listeners (snd (initializeProvider d providerParams s)) = listeners s"
proof -
  let ?s1 = "s\<lparr>baseProviderParams := providerParams\<rparr>"
  let ?r = "configureProvider d (getProp (c_type (providerStore s)))
              (getProp (c_rpcUrl (providerStore s))) (getProp (c_chainId (providerStore s))) ?s1"
  have c: "snd (initializeProvider d providerParams s) = snd ?r \<or>
        snd (initializeProvider d providerParams s) = lookupNetwork d (snd ?r)"
    by (cases ?r) (auto simp: initializeProvider_def getProviderConfig_def Let_def
        split: outcome.splits)
  show "providerStore (snd (initializeProvider d providerParams s)) = providerStore s"
    using c by (auto simp: configureProvider_frame lookupNetwork_frame)
  show "previousProviderStore (snd (initializeProvider d providerParams s)) = previousProviderStore s"
    using c by (auto simp: configureProvider_frame lookupNetwork_frame)
  show "listeners (snd (initializeProvider d providerParams s)) = listeners s"
    using c by (auto simp: configureProvider_frame lookupNetwork_frame)
qed

lemma deliverResponse_frame:
  "providerStore (deliverResponse i err v s) = providerStore s"
  "previousProviderStore (deliverResponse i err v s) = previousProviderStore s"
  "listeners (deliverResponse i err v s) = listeners s"
  by (simp_all add: deliverResponse_def lookupNetworkCallback_def setNetworkState_def
      record_effect_def)

lemma perform_invariants:
  "subscribed s \<Longrightarrow> subscribed (perform d a s)"
  "history_within s \<Longrightarrow> history_within (perform d a s)"
proof -
  show "subscribed s \<Longrightarrow> subscribed (perform d a s)"
    by (cases a)
      (simp_all add: subscribed_def do_switch_listeners initializeProvider_frame
        setInfuraProjectId_def verifyNetwork_def lookupNetwork_frame deliverResponse_frame
        split: jsval.splits)
  show "history_within s \<Longrightarrow> history_within (perform d a s)"
  proof (cases a)
    case (Switch c)
    assume "history_within s"
    then show ?thesis unfolding Switch perform.simps by (rule do_switch_keeps_history)
  qed (simp_all add: history_within_def initializeProvider_frame
        setInfuraProjectId_def verifyNetwork_def lookupNetwork_frame deliverResponse_frame
        split: jsval.splits)
qed

lemma run_invariants:
  "subscribed (run d acts (constructor d opts_provider))"
  "history_within (run d acts (constructor d opts_provider))"
proof -
  have h0: "history_within (constructor d opts_provider)"
    by (simp add: history_within_def constructor_def Let_def props_within_def covers_refl)
  have "subscribed (run d acts (constructor d opts_provider)) \<and>
        history_within (run d acts (constructor d opts_provider))"
  proof (induction acts rule: rev_induct)
    case Nil
    show ?case using h0 by (simp add: run_def constructor_subscribed)
  next
    case (snoc a acts)
    have "run d (acts @ [a]) (constructor d opts_provider) =
            perform d a (run d acts (constructor d opts_provider))"
      by (simp add: run_def)
    with snoc show ?case by (simp add: perform_invariants)
  qed
  then show "subscribed (run d acts (constructor d opts_provider))"
    and "history_within (run d acts (constructor d opts_provider))"
    by simp_all
qed

section \<open>Validation\<close>

text \<open>
  C2. For every chainId string that fails the hex-format check, or whose numeric value
  fails the safe-integer check, \<^verbatim>\<open>setRpcTarget\<close> throws an assertion error at the call
  and leaves the controller as it was: the provider configuration, the previous
  configuration, the network status and every other field are unchanged.
\<close>

theorem setRpcTarget_invalid_chainId:
  assumes "\<not> isPrefixedFormattedHexString d chainId \<or> \<not> isSafeChainId d (parseInt16 chainId)"
  shows "\<exists>e. isAssertionError e \<and>
             setRpcTarget d rpcUrl chainId ticker nickname rpcPrefs s = (Threw e, s)"
  using assms by (auto simp: setRpcTarget_def)

theorem setRpcTarget_invalid_chainId_witness:
  "\<not> isPrefixedFormattedHexString spec_deps ''0xzz'' \<and>
   (\<exists>e. isAssertionError e \<and>
        setRpcTarget spec_deps (JStr ''http://localhost:9850'') ''0xzz'' JUndefined JUndefined
          JUndefined demo_ready = (Threw e, demo_ready)) \<and>
   \<not> isSafeChainId spec_deps (parseInt16 ''0x20000000000000'') \<and>
   (\<exists>e. isAssertionError e \<and>
        setRpcTarget spec_deps (JStr ''http://localhost:9850'') ''0x20000000000000'' JUndefined
          JUndefined JUndefined demo_ready = (Threw e, demo_ready))"
proof -
  have h1: "\<not> isPrefixedFormattedHexString spec_deps ''0xzz''" by code_simp
  have h2: "\<not> isSafeChainId spec_deps (parseInt16 ''0x20000000000000'')" by code_simp
  show ?thesis
    using h1 h2
      setRpcTarget_invalid_chainId [of spec_deps "''0xzz''", OF disjI1, OF h1]
      setRpcTarget_invalid_chainId [of spec_deps "''0x20000000000000''", OF disjI2, OF h2]
    by blast
qed

text \<open>
  C5. For every chainId string that passes the hex-format check and whose numeric value
  passes the safe-integer check, no assertion of \<^verbatim>\<open>setRpcTarget\<close> fails: the call is that
  of \<^verbatim>\<open>setProviderConfig\<close> on the custom configuration, and afterwards
  \<^verbatim>\<open>getProviderConfig().chainId\<close> is the chainId passed in. The call returns (throws
  nothing) when the constructors of the client and of the middleware, which are not part
  of the controller, return, and the sentinel of custom endpoints is not the name of a
  managed endpoint.
\<close>

theorem setRpcTarget_valid_chainId:
  assumes "isPrefixedFormattedHexString d chainId"
    and "isSafeChainId d (parseInt16 chainId)"
  shows "setRpcTarget d rpcUrl chainId ticker nickname rpcPrefs s =
           setProviderConfig d
             \<lparr> c_type = Some (JStr (NETWORK_TYPE_RPC d)), c_rpcUrl = Some rpcUrl,
               c_chainId = Some (JStr chainId),
               c_ticker = Some (default_arg (JStr ''STC'') ticker),
               c_nickname = Some (default_arg (JStr []) nickname),
               c_rpcPrefs = Some rpcPrefs \<rparr> s \<and>
         getProp (c_chainId (getProviderConfig
            (snd (setRpcTarget d rpcUrl chainId ticker nickname rpcPrefs s)))) = JStr chainId \<and>
         (NETWORK_TYPE_RPC d \<notin> set (INFURA_PROVIDER_TYPES d) \<and>
          createJsonRpcClient d rpcUrl (JStr chainId) = None \<and>
          createMetamaskMiddleware d (baseProviderParams s) = None \<longrightarrow>
          fst (setRpcTarget d rpcUrl chainId ticker nickname rpcPrefs s) = Returned)"
proof -
  let ?cfg = "\<lparr> c_type = Some (JStr (NETWORK_TYPE_RPC d)), c_rpcUrl = Some rpcUrl,
               c_chainId = Some (JStr chainId),
               c_ticker = Some (default_arg (JStr ''STC'') ticker),
               c_nickname = Some (default_arg (JStr []) nickname),
               c_rpcPrefs = Some rpcPrefs \<rparr>"
  have eq: "setRpcTarget d rpcUrl chainId ticker nickname rpcPrefs s = setProviderConfig d ?cfg s"
    using assms by (simp add: setRpcTarget_def)
  have stored: "getProp (c_chainId (getProviderConfig (snd (setProviderConfig d ?cfg s)))) =
                  JStr chainId"
    by (simp add: getProviderConfig_def setProviderConfig_stores updateState_def
        assign_prop_def getProp_def)
  have ret: "fst (setProviderConfig d ?cfg s) = Returned"
    if c: "NETWORK_TYPE_RPC d \<notin> set (INFURA_PROVIDER_TYPES d)"
      "createJsonRpcClient d rpcUrl (JStr chainId) = None"
      "createMetamaskMiddleware d (baseProviderParams s) = None"
  proof -
    from setProviderConfig_as_switch [of d ?cfg s] obtain s0 where
      s0: "setProviderConfig d ?cfg s = switchNetwork d ?cfg s0"
      and b0: "baseProviderParams s0 = baseProviderParams s"
      by blast
    show ?thesis
      unfolding s0 switchNetwork_outcome
      using configureProvider_standard_returns
        [of d rpcUrl "JStr chainId"
            "setNetworkState loading (emit d NETWORK_WILL_CHANGE JUndefined s0)"] c b0
      by (simp add: getProp_def setNetworkState_def record_effect_def emit_frame)
  qed
  show ?thesis using eq stored ret by simp
qed

theorem setRpcTarget_valid_chainId_witness:
  "isPrefixedFormattedHexString spec_deps ''0xfe'' \<and>
   isSafeChainId spec_deps (parseInt16 ''0xfe'') \<and>
   NETWORK_TYPE_RPC spec_deps \<notin> set (INFURA_PROVIDER_TYPES spec_deps) \<and>
   createJsonRpcClient spec_deps (JStr ''http://localhost:9850'') (JStr ''0xfe'') = None \<and>
   createMetamaskMiddleware spec_deps (baseProviderParams demo_ready) = None \<and>
   fst (setRpcTarget spec_deps (JStr ''http://localhost:9850'') ''0xfe'' JUndefined JUndefined
          JUndefined demo_ready) = Returned \<and>
   getProp (c_chainId (getProviderConfig
     (snd (setRpcTarget spec_deps (JStr ''http://localhost:9850'') ''0xfe'' JUndefined JUndefined
             JUndefined demo_ready)))) = JStr ''0xfe''"
proof -
  have h1: "isPrefixedFormattedHexString spec_deps ''0xfe''" by code_simp
  have h2: "isSafeChainId spec_deps (parseInt16 ''0xfe'')" by code_simp
  have h3: "NETWORK_TYPE_RPC spec_deps \<notin> set (INFURA_PROVIDER_TYPES spec_deps)"
    by (simp add: spec_deps_def)
  have h4: "createJsonRpcClient spec_deps (JStr ''http://localhost:9850'') (JStr ''0xfe'') = None"
    by (simp add: spec_deps_def)
  have h5: "createMetamaskMiddleware spec_deps (baseProviderParams demo_ready) = None"
    by (simp add: spec_deps_def)
  show ?thesis
    using h1 h2 h3 h4 h5
      setRpcTarget_valid_chainId [OF h1 h2, of "JStr ''http://localhost:9850''" JUndefined
        JUndefined JUndefined demo_ready]
    by blast
qed

text \<open>
  C6. \<^verbatim>\<open>setProviderType\<close> called with the sentinel type of custom endpoints fails with an
  assertion error whatever the other arguments are, and so it does for every type that
  is not among the managed-endpoint names; in both cases the controller is left as it
  was. (The method is \<^verbatim>\<open>async\<close>: the error rejects the promise it returns.)
\<close>

theorem setProviderType_rejected:
  assumes "type = JStr (NETWORK_TYPE_RPC d) \<or> type \<notin> set (map JStr (INFURA_PROVIDER_TYPES d))"
  shows "\<exists>e. isAssertionError e \<and>
             setProviderType d type rpcUrl ticker nickname s = (Threw e, s)"
  using assms by (auto simp: setProviderType_def)

theorem setProviderType_rejected_witness:
  "JStr ''customRpcSentinel'' = JStr (NETWORK_TYPE_RPC spec_deps) \<and>
   (\<exists>e. isAssertionError e \<and>
        setProviderType spec_deps (JStr ''customRpcSentinel'') (JStr ''http://localhost:9850'')
          (JStr ''ETH'') (JStr ''mine'') demo_ready = (Threw e, demo_ready)) \<and>
   JStr ''ropsten'' \<notin> set (map JStr (INFURA_PROVIDER_TYPES spec_deps)) \<and>
   (\<exists>e. isAssertionError e \<and>
        setProviderType spec_deps (JStr ''ropsten'') JUndefined JUndefined JUndefined
          demo_ready = (Threw e, demo_ready))"
proof -
  have h1: "JStr ''customRpcSentinel'' = JStr (NETWORK_TYPE_RPC spec_deps)"
    by (simp add: spec_deps_def)
  have h2: "JStr ''ropsten'' \<notin> set (map JStr (INFURA_PROVIDER_TYPES spec_deps))"
    by (simp add: spec_deps_def)
  show ?thesis
    using h1 h2
      setProviderType_rejected [of "JStr ''customRpcSentinel''" spec_deps, OF disjI1, OF h1]
      setProviderType_rejected [of "JStr ''ropsten''" spec_deps, OF disjI2, OF h2]
    by blast
qed

section \<open>The stale-response guard\<close>

text \<open>
  C1. Two switches are issued one after the other, each sends its probe, and no response
  has arrived. The response to the second probe arrives first, without an error, and sets
  the status to a version other than \<^verbatim>\<open>loading\<close>. When the response to the first probe
  arrives after that, its callback finds the status it captured (\<^verbatim>\<open>loading\<close>) different
  from the current one: the status keeps the second probe's version, nothing is written,
  and the probe is gone. The controller has the subscription of the constructor, as
  every controller has (\<open>run_invariants\<close>).
\<close>

theorem stale_probe_discarded:
  assumes sub: "subscribed s0"
    and sw1: "do_switch d c1 s0 = (Returned, s1)"
    and sw2: "do_switch d c2 s1 = (Returned, s2)"
    and cid1: "truthy (getCurrentChainId d s1)"
    and cid2: "truthy (getCurrentChainId d s2)"
    and ok: "\<not> truthy err2" "version2 \<noteq> loading"
    and s3: "s3 = deliverResponse (Suc (length (inFlight s0))) err2 version2 s2"
  shows "\<exists>p1 p2. inFlight s2 = inFlight s0 @ [\<lparr>initialNetwork = loading, sentVia = p1\<rparr>,
                                              \<lparr>initialNetwork = loading, sentVia = p2\<rparr>] \<and>
           networkStore s3 = version2 \<and>
           inFlight s3 = inFlight s0 @ [\<lparr>initialNetwork = loading, sentVia = p1\<rparr>] \<and>
           networkStore (deliverResponse (length (inFlight s0)) err1 version1 s3) = version2 \<and>
           effects (deliverResponse (length (inFlight s0)) err1 version1 s3) = effects s3 \<and>
           inFlight (deliverResponse (length (inFlight s0)) err1 version1 s3) = inFlight s0"
proof -
  from do_switch_issues_probe [OF sub sw1 cid1] obtain p1 where
    f1: "inFlight s1 = inFlight s0 @ [\<lparr>initialNetwork = loading, sentVia = p1\<rparr>]"
    and sub1: "subscribed s1"
    by blast
  from do_switch_issues_probe [OF sub1 sw2 cid2] obtain p2 where
    f2: "inFlight s2 = inFlight s1 @ [\<lparr>initialNetwork = loading, sentVia = p2\<rparr>]"
    and l2: "networkStore s2 = loading"
    by blast
  let ?n = "length (inFlight s0)"
  have in2: "inFlight s2 = inFlight s0 @ [\<lparr>initialNetwork = loading, sentVia = p1\<rparr>,
                                           \<lparr>initialNetwork = loading, sentVia = p2\<rparr>]"
    using f1 f2 by simp
  have nth2: "inFlight s2 ! Suc ?n = \<lparr>initialNetwork = loading, sentVia = p2\<rparr>"
    unfolding in2 by (simp add: nth_append)
  have s3': "s3 = setNetworkState version2
                    (s2\<lparr>inFlight := inFlight s0 @ [\<lparr>initialNetwork = loading, sentVia = p1\<rparr>]\<rparr>)"
    unfolding s3 using deliverResponse_current [of "Suc ?n" s2 err2 version2] nth2 l2 ok
    by (simp add: in2)
  have st3: "networkStore s3 = version2"
    and in3: "inFlight s3 = inFlight s0 @ [\<lparr>initialNetwork = loading, sentVia = p1\<rparr>]"
    unfolding s3' by (simp_all add: setNetworkState_def record_effect_def)
  have "initialNetwork (inFlight s3 ! ?n) \<noteq> networkStore s3"
    using st3 in3 ok by simp
  then have "deliverResponse ?n err1 version1 s3 =
               s3\<lparr>inFlight := take ?n (inFlight s3) @ drop (Suc ?n) (inFlight s3)\<rparr>"
    using deliverResponse_stale [of ?n s3 err1 version1] in3 by simp
  with in2 st3 in3 show ?thesis by simp
qed

theorem stale_probe_discarded_witness:
  "subscribed demo_ready \<and>
   do_switch spec_deps demo_custom demo_ready =
     (Returned, snd (do_switch spec_deps demo_custom demo_ready)) \<and>
   do_switch spec_deps demo_other (snd (do_switch spec_deps demo_custom demo_ready)) =
     (Returned, snd (do_switch spec_deps demo_other
                       (snd (do_switch spec_deps demo_custom demo_ready)))) \<and>
   networkStore
     (deliverResponse 1 (JObj 7) JUndefined
        (deliverResponse 2 JNull (JStr ''253'')
           (snd (do_switch spec_deps demo_other
                   (snd (do_switch spec_deps demo_custom demo_ready)))))) = JStr ''253''"
proof -
  let ?s1 = "snd (do_switch spec_deps demo_custom demo_ready)"
  let ?s2 = "snd (do_switch spec_deps demo_other ?s1)"
  have sub: "subscribed demo_ready" by code_simp
  have "fst (do_switch spec_deps demo_custom demo_ready) = Returned" by code_simp
  then have sw1: "do_switch spec_deps demo_custom demo_ready = (Returned, ?s1)"
    by (simp add: prod_eq_iff)
  have "fst (do_switch spec_deps demo_other ?s1) = Returned" by code_simp
  then have sw2: "do_switch spec_deps demo_other ?s1 = (Returned, ?s2)"
    by (simp add: prod_eq_iff)
  have cid1: "truthy (getCurrentChainId spec_deps ?s1)" by code_simp
  have cid2: "truthy (getCurrentChainId spec_deps ?s2)" by code_simp
  have ok: "\<not> truthy JNull" "JStr ''253'' \<noteq> loading" by (simp_all add: loading_def)
  have len: "length (inFlight demo_ready) = 1" by code_simp
  from stale_probe_discarded [OF sub sw1 sw2 cid1 cid2 ok refl, of "JObj 7" JUndefined]
  have "networkStore (deliverResponse 1 (JObj 7) JUndefined
          (deliverResponse 2 JNull (JStr ''253'') ?s2)) = JStr ''253''"
    unfolding len by (auto simp: numeral_2_eq_2)
  with sub sw1 sw2 show ?thesis by simp
qed

text \<open>
  C10. The guard compares the captured status with the current one and nothing else; the
  callback does not depend on the provider the probe went through. So in the other
  order of arrival the superseded probe wins: after two switches that each sent a probe,
  both captured \<^verbatim>\<open>loading\<close>; the response to the first probe, which went through the
  provider that the second switch replaced, arrives first, passes the guard and sets the
  status to its version; the response to the second probe, the one of the current
  provider, then finds the status changed and is discarded.
\<close>

theorem superseded_probe_wins:
  assumes sub: "subscribed s0"
    and sw1: "do_switch d c1 s0 = (Returned, s1)"
    and sw2: "do_switch d c2 s1 = (Returned, s2)"
    and cid1: "truthy (getCurrentChainId d s1)"
    and cid2: "truthy (getCurrentChainId d s2)"
    and ok: "\<not> truthy err1" "version1 \<noteq> loading"
    and s3: "s3 = deliverResponse (length (inFlight s0)) err1 version1 s2"
  shows "\<exists>p1 p2. inFlight s2 = inFlight s0 @ [\<lparr>initialNetwork = loading, sentVia = p1\<rparr>,
                                              \<lparr>initialNetwork = loading, sentVia = p2\<rparr>] \<and>
           provider s1 = Some p1 \<and> provider s2 = Some p2 \<and> p1 \<noteq> p2 \<and>
           getNetworkState s3 = version1 \<and>
           inFlight s3 = inFlight s0 @ [\<lparr>initialNetwork = loading, sentVia = p2\<rparr>] \<and>
           getNetworkState (deliverResponse (length (inFlight s0)) err2 version2 s3) = version1 \<and>
           effects (deliverResponse (length (inFlight s0)) err2 version2 s3) = effects s3 \<and>
           lookupNetworkCallback \<lparr>initialNetwork = loading, sentVia = p1\<rparr> err1 version1 =
             lookupNetworkCallback \<lparr>initialNetwork = loading, sentVia = p2\<rparr> err1 version1"
proof -
  from do_switch_issues_probe [OF sub sw1 cid1] obtain p1 where
    f1: "inFlight s1 = inFlight s0 @ [\<lparr>initialNetwork = loading, sentVia = p1\<rparr>]"
    and sub1: "subscribed s1" and pr1: "provider s1 = Some p1" and lt1: "p1 < nextRef s1"
    by blast
  from do_switch_issues_probe [OF sub1 sw2 cid2] obtain p2 where
    f2: "inFlight s2 = inFlight s1 @ [\<lparr>initialNetwork = loading, sentVia = p2\<rparr>]"
    and l2: "networkStore s2 = loading" and pr2: "provider s2 = Some p2"
    and lt2: "nextRef s1 < p2"
    by blast
  let ?n = "length (inFlight s0)"
  have ne: "p1 \<noteq> p2" using lt1 lt2 by simp
  have in2: "inFlight s2 = inFlight s0 @ [\<lparr>initialNetwork = loading, sentVia = p1\<rparr>,
                                           \<lparr>initialNetwork = loading, sentVia = p2\<rparr>]"
    using f1 f2 by simp
  have nth2: "inFlight s2 ! ?n = \<lparr>initialNetwork = loading, sentVia = p1\<rparr>"
    unfolding in2 by (simp add: nth_append)
  have s3': "s3 = setNetworkState version1
                    (s2\<lparr>inFlight := inFlight s0 @ [\<lparr>initialNetwork = loading, sentVia = p2\<rparr>]\<rparr>)"
    unfolding s3 using deliverResponse_current [of ?n s2 err1 version1] nth2 l2 ok
    by (simp add: in2)
  have st3: "networkStore s3 = version1"
    and in3: "inFlight s3 = inFlight s0 @ [\<lparr>initialNetwork = loading, sentVia = p2\<rparr>]"
    unfolding s3' by (simp_all add: setNetworkState_def record_effect_def)
  have "initialNetwork (inFlight s3 ! ?n) \<noteq> networkStore s3"
    using st3 in3 ok by simp
  then have "deliverResponse ?n err2 version2 s3 =
               s3\<lparr>inFlight := take ?n (inFlight s3) @ drop (Suc ?n) (inFlight s3)\<rparr>"
    using deliverResponse_stale [of ?n s3 err2 version2] in3 by simp
  moreover have "lookupNetworkCallback \<lparr>initialNetwork = loading, sentVia = p1\<rparr> err1 version1 =
             lookupNetworkCallback \<lparr>initialNetwork = loading, sentVia = p2\<rparr> err1 version1"
    by (rule ext) (simp add: lookupNetworkCallback_def)
  ultimately show ?thesis
    using in2 st3 in3 pr1 pr2 ne by (simp add: getNetworkState_def)
qed

theorem superseded_probe_wins_witness:
  "subscribed demo_ready \<and>
   do_switch spec_deps demo_custom demo_ready =
     (Returned, snd (do_switch spec_deps demo_custom demo_ready)) \<and>
   do_switch spec_deps demo_other (snd (do_switch spec_deps demo_custom demo_ready)) =
     (Returned, snd (do_switch spec_deps demo_other
                       (snd (do_switch spec_deps demo_custom demo_ready)))) \<and>
   getNetworkState
     (deliverResponse 1 JNull (JStr ''254'')
        (snd (do_switch spec_deps demo_other
                (snd (do_switch spec_deps demo_custom demo_ready))))) = JStr ''254'' \<and>
   getNetworkState
     (deliverResponse 1 JNull (JStr ''253'')
        (deliverResponse 1 JNull (JStr ''254'')
           (snd (do_switch spec_deps demo_other
                   (snd (do_switch spec_deps demo_custom demo_ready)))))) = JStr ''254''"
proof -
  let ?s1 = "snd (do_switch spec_deps demo_custom demo_ready)"
  let ?s2 = "snd (do_switch spec_deps demo_other ?s1)"
  have sub: "subscribed demo_ready" by code_simp
  have "fst (do_switch spec_deps demo_custom demo_ready) = Returned" by code_simp
  then have sw1: "do_switch spec_deps demo_custom demo_ready = (Returned, ?s1)"
    by (simp add: prod_eq_iff)
  have "fst (do_switch spec_deps demo_other ?s1) = Returned" by code_simp
  then have sw2: "do_switch spec_deps demo_other ?s1 = (Returned, ?s2)"
    by (simp add: prod_eq_iff)
  have cid1: "truthy (getCurrentChainId spec_deps ?s1)" by code_simp
  have cid2: "truthy (getCurrentChainId spec_deps ?s2)" by code_simp
  have ok: "\<not> truthy JNull" "JStr ''254'' \<noteq> loading" by (simp_all add: loading_def)
  have len: "length (inFlight demo_ready) = 1" by code_simp
  from superseded_probe_wins [OF sub sw1 sw2 cid1 cid2 ok refl, of JNull "JStr ''253''"]
  have "getNetworkState (deliverResponse 1 JNull (JStr ''254'') ?s2) = JStr ''254''"
    and "getNetworkState (deliverResponse 1 JNull (JStr ''253'')
           (deliverResponse 1 JNull (JStr ''254'') ?s2)) = JStr ''254''"
    unfolding len by auto
  with sub sw1 sw2 show ?thesis by simp
qed

text \<open>
  C8. A probe that fails is not an error of its own. When the response carries an error
  and the guard passes, the callback puts the status to \<^verbatim>\<open>loading\<close> and returns. After
  any sequence of calls and responses on a new controller, the status is \<^verbatim>\<open>loading\<close> or
  a version that a response without an error reported: no other value is ever stored.
\<close>

theorem probe_failure_is_loading:
  "(i < length (inFlight s) \<and> initialNetwork (inFlight s ! i) = getNetworkState s \<and> truthy err \<longrightarrow>
      deliverResponse i err networkVersion s =
        setNetworkState loading (s\<lparr>inFlight := take i (inFlight s) @ drop (Suc i) (inFlight s)\<rparr>) \<and>
      getNetworkState (deliverResponse i err networkVersion s) = loading) \<and>
   getNetworkState (run d acts (constructor d opts_provider)) \<in> set (loading # reported acts)"
proof -
  have "networkStore (constructor d opts_provider) = loading"
    by (simp add: constructor_def Let_def)
  with run_networkStore [of d acts "constructor d opts_provider"]
  have "getNetworkState (run d acts (constructor d opts_provider)) \<in> set (loading # reported acts)"
    by (auto simp: getNetworkState_def)
  then show ?thesis
    by (auto simp: deliverResponse_current getNetworkState_def setNetworkState_def record_effect_def)
qed

theorem probe_failure_is_loading_witness:
  "(0::nat) < length (inFlight demo_ready) \<and>
   initialNetwork (inFlight demo_ready ! 0) = getNetworkState demo_ready \<and>
   truthy (JObj 9) \<and>
   getNetworkState (deliverResponse 0 (JObj 9) JUndefined demo_ready) = loading \<and>
   getNetworkState
     (run spec_deps
        [SetInfuraProjectId (JStr ''project-id''), InitializeProvider (JObj 0),
         Response 0 JNull (JStr ''1''), Switch demo_custom, Response 0 (JObj 9) JUndefined]
        (constructor spec_deps None))
     \<in> set (loading # reported
        [SetInfuraProjectId (JStr ''project-id''), InitializeProvider (JObj 0),
         Response 0 JNull (JStr ''1''), Switch demo_custom, Response 0 (JObj 9) JUndefined])"
proof -
  have h1: "(0::nat) < length (inFlight demo_ready)" by code_simp
  have h2: "initialNetwork (inFlight demo_ready ! 0) = getNetworkState demo_ready" by code_simp
  have h3: "truthy (JObj 9)" by simp
  show ?thesis
    using h1 h2 h3
      probe_failure_is_loading [of 0 demo_ready "JObj 9" JUndefined spec_deps
        "[SetInfuraProjectId (JStr ''project-id''), InitializeProvider (JObj 0),
          Response 0 JNull (JStr ''1''), Switch demo_custom, Response 0 (JObj 9) JUndefined]"
        None]
    by blast
qed

section \<open>Switching\<close>

text \<open>
  C3. After a switch that returns (a setter, \<^verbatim>\<open>resetConnection\<close> or the rollback) the
  network status is \<^verbatim>\<open>loading\<close>, and a proxy that existed before the switch is the same
  object after it: \<^verbatim>\<open>getProviderAndBlockTracker()\<close> returns proxies with the references
  they had, and only their targets have changed, to the provider and the block tracker
  that the switch created.
\<close>

theorem switch_sets_loading_keeps_proxies:
  assumes "do_switch d c s = (Returned, s')"
  shows "getNetworkState s' = loading \<and>
         (\<forall>px. fst (getProviderAndBlockTracker s) = Some px \<longrightarrow>
            (\<exists>px'. fst (getProviderAndBlockTracker s') = Some px' \<and>
                   proxy_ref px' = proxy_ref px)) \<and>
         (\<forall>bx. snd (getProviderAndBlockTracker s) = Some bx \<longrightarrow>
            (\<exists>bx'. snd (getProviderAndBlockTracker s') = Some bx' \<and>
                   proxy_ref bx' = proxy_ref bx)) \<and>
         map_option proxy_target (fst (getProviderAndBlockTracker s')) = provider s' \<and>
         map_option proxy_target (snd (getProviderAndBlockTracker s')) = blockTracker s' \<and>
         provider s' = Some (Suc (nextRef s)) \<and> blockTracker s' = Some (nextRef s)"
proof -
  from do_switch_Returned [OF assms] obtain opts s0 where
    sw: "switchNetwork d opts s0 = (Returned, s')"
    and fr: "providerProxy s0 = providerProxy s" "blockTrackerProxy s0 = blockTrackerProxy s"
      "nextRef s0 = nextRef s"
    by blast
  let ?s2 = "setNetworkState loading (emit d NETWORK_WILL_CHANGE JUndefined s0)"
  from switchNetwork_Returned [OF sw] obtain s3 where
    conf: "configureProvider d (getProp (c_type opts)) (getProp (c_rpcUrl opts))
             (getProp (c_chainId opts)) ?s2 = (Returned, s3)"
    and s': "s' = emit d NETWORK_DID_CHANGE (getProp (c_type opts)) s3"
    by blast
  have fr2: "providerProxy ?s2 = providerProxy s" "blockTrackerProxy ?s2 = blockTrackerProxy s"
    "nextRef ?s2 = nextRef s"
    using fr by (simp_all add: setNetworkState_def record_effect_def emit_frame)
  have st: "networkStore s' = loading"
    using switchNetwork_frame(6) [of d opts s0] sw by simp
  from configureProvider_shape [OF conf] obtain m a where
    s3: "s3 = setProviderAndBlockTracker (Suc (nextRef ?s2)) (nextRef ?s2)
                ((record_effect (LogInfo m a) ?s2)\<lparr>nextRef := Suc (Suc (nextRef ?s2))\<rparr>)"
    by blast
  have px: "providerProxy s' = providerProxy s3" "blockTrackerProxy s' = blockTrackerProxy s3"
    "provider s' = provider s3" "blockTracker s' = blockTracker s3"
    unfolding s' by (simp_all add: emit_frame)
  have p3: "provider s3 = Some (Suc (nextRef s))" "blockTracker s3 = Some (nextRef s)"
    unfolding s3 using fr2 by (simp_all add: setProviderAndBlockTracker_frame)
  have t3: "map_option proxy_target (providerProxy s3) = Some (Suc (nextRef s))"
    "map_option proxy_target (blockTrackerProxy s3) = Some (nextRef s)"
    unfolding s3 using fr2
    by (simp_all add: setProviderAndBlockTracker_proxies split: option.splits)
  have r1: "\<exists>px'. providerProxy s3 = Some px' \<and> proxy_ref px' = proxy_ref px"
    if "providerProxy s = Some px" for px
    using configureProvider_proxy_refs(1) [OF conf, of px] that fr2 by auto
  have r2: "\<exists>bx'. blockTrackerProxy s3 = Some bx' \<and> proxy_ref bx' = proxy_ref bx"
    if "blockTrackerProxy s = Some bx" for bx
    using configureProvider_proxy_refs(2) [OF conf, of bx] that fr2 by auto
  show ?thesis
    using st px p3 t3 r1 r2
    by (simp add: getNetworkState_def getProviderAndBlockTracker_def)
qed

theorem switch_sets_loading_keeps_proxies_witness:
  "do_switch spec_deps demo_custom demo_ready =
     (Returned, snd (do_switch spec_deps demo_custom demo_ready)) \<and>
   fst (getProviderAndBlockTracker demo_ready) = Some \<lparr>proxy_ref = 2, proxy_target = 1\<rparr> \<and>
   snd (getProviderAndBlockTracker demo_ready) = Some \<lparr>proxy_ref = 3, proxy_target = 0\<rparr> \<and>
   getNetworkState (snd (do_switch spec_deps demo_custom demo_ready)) = loading \<and>
   (\<exists>px'. fst (getProviderAndBlockTracker (snd (do_switch spec_deps demo_custom demo_ready))) =
             Some px' \<and> proxy_ref px' = 2) \<and>
   (\<exists>bx'. snd (getProviderAndBlockTracker (snd (do_switch spec_deps demo_custom demo_ready))) =
             Some bx' \<and> proxy_ref bx' = 3)"
proof -
  let ?s1 = "snd (do_switch spec_deps demo_custom demo_ready)"
  have "fst (do_switch spec_deps demo_custom demo_ready) = Returned" by code_simp
  then have sw: "do_switch spec_deps demo_custom demo_ready = (Returned, ?s1)"
    by (simp add: prod_eq_iff)
  have px: "fst (getProviderAndBlockTracker demo_ready) = Some \<lparr>proxy_ref = 2, proxy_target = 1\<rparr>"
    by code_simp
  have bx: "snd (getProviderAndBlockTracker demo_ready) = Some \<lparr>proxy_ref = 3, proxy_target = 0\<rparr>"
    by code_simp
  from switch_sets_loading_keeps_proxies [OF sw] px bx
  have "getNetworkState ?s1 = loading"
    and "\<exists>px'. fst (getProviderAndBlockTracker ?s1) = Some px' \<and> proxy_ref px' = 2"
    and "\<exists>bx'. snd (getProviderAndBlockTracker ?s1) = Some bx' \<and> proxy_ref bx' = 3"
    by auto
  with sw px bx show ?thesis by simp
qed



section \<open>The history slot\<close>

text \<open>
  C9. \<^verbatim>\<open>resetConnection\<close> is \<^verbatim>\<open>setProviderConfig\<close> on the current configuration, so it
  writes the current configuration into the history slot: afterwards the previous
  configuration equals the current one, which is unchanged, whatever the slot held
  before. A rollback after it re-applies the configuration that is current already, and
  the slot still holds that configuration. This holds of every controller in which the
  previous configuration has no property that the current one lacks, and so of every
  controller that a sequence of calls and responses makes of a new one.
\<close>

theorem resetConnection_overwrites_history:
  "history_within (run d acts (constructor d opts_provider)) \<and>
   (history_within s \<longrightarrow>
      resetConnection d s = setProviderConfig d (getProviderConfig s) s \<and>
      previousProviderStore (snd (resetConnection d s)) = getProviderConfig s \<and>
      getProviderConfig (snd (resetConnection d s)) = getProviderConfig s \<and>
      getProviderConfig (snd (rollbackToPreviousProvider d (snd (resetConnection d s)))) =
        getProviderConfig (snd (resetConnection d s)) \<and>
      previousProviderStore (snd (rollbackToPreviousProvider d (snd (resetConnection d s)))) =
        getProviderConfig s)"
  using run_invariants(2) [of d acts opts_provider]
  by (simp add: resetConnection_def getProviderConfig_def setProviderConfig_stores
      rollback_stores updateState_same updateState_covered history_within_def)

theorem resetConnection_overwrites_history_witness:
  "history_within (snd (do_switch spec_deps demo_custom demo_ready)) \<and>
   previousProviderStore (snd (do_switch spec_deps demo_custom demo_ready)) \<noteq>
     getProviderConfig (snd (do_switch spec_deps demo_custom demo_ready)) \<and>
   previousProviderStore
     (snd (resetConnection spec_deps (snd (do_switch spec_deps demo_custom demo_ready)))) =
     getProviderConfig (snd (do_switch spec_deps demo_custom demo_ready)) \<and>
   getProviderConfig
     (snd (rollbackToPreviousProvider spec_deps
        (snd (resetConnection spec_deps (snd (do_switch spec_deps demo_custom demo_ready)))))) =
     getProviderConfig (snd (do_switch spec_deps demo_custom demo_ready))"
proof -
  let ?s = "snd (do_switch spec_deps demo_custom demo_ready)"
  have h: "history_within ?s" by code_simp
  have ne: "previousProviderStore ?s \<noteq> getProviderConfig ?s" by code_simp
  show ?thesis
    using h ne resetConnection_overwrites_history [of spec_deps "[]" None ?s] by metis
qed

text \<open>
  C4, as the code has it. \<^verbatim>\<open>rollbackToPreviousProvider\<close> leaves the previous-config slot
  unchanged, and writes the retained previous configuration over the current one with
  \<^verbatim>\<open>updateState\<close>, which merges: every property of the retained configuration takes its
  retained value, and a property that only the current configuration has stays. After
  exactly one switch the slot holds the configuration that was active before it, and the
  rollback restores that configuration by value exactly when the configuration switched
  to has no property that the earlier one lacks. The hypothesis, that the previous
  configuration has no property that the current one lacks, holds of every controller
  that a sequence of calls and responses makes of a new one.
\<close>

theorem rollback_merges_previous:
  "previousProviderStore (snd (rollbackToPreviousProvider d s)) = previousProviderStore s \<and>
   getProviderConfig (snd (rollbackToPreviousProvider d s)) =
     updateState (getProviderConfig s) (previousProviderStore s) \<and>
   props_kept (previousProviderStore s) (getProviderConfig (snd (rollbackToPreviousProvider d s))) \<and>
   history_within (run d acts (constructor d opts_provider)) \<and>
   (history_within s0 \<longrightarrow>
      previousProviderStore (snd (setProviderConfig d config s0)) = getProviderConfig s0 \<and>
      (getProviderConfig
         (snd (rollbackToPreviousProvider d (snd (setProviderConfig d config s0)))) =
       getProviderConfig s0) = props_within config (getProviderConfig s0))"
  using run_invariants(2) [of d acts opts_provider]
  by (simp add: getProviderConfig_def setProviderConfig_stores rollback_stores
      updateState_covered updateState_back history_within_def props_kept_updateState)

theorem rollback_merges_previous_witness:
  "history_within demo_ready \<and>
   \<not> props_within demo_config (getProviderConfig demo_ready) \<and>
   getProviderConfig
     (snd (rollbackToPreviousProvider spec_deps (snd (setProviderConfig spec_deps demo_config demo_ready))))
     \<noteq> getProviderConfig demo_ready \<and>
   history_within (snd (do_switch spec_deps demo_custom demo_ready)) \<and>
   props_within demo_config (getProviderConfig (snd (do_switch spec_deps demo_custom demo_ready))) \<and>
   getProviderConfig
     (snd (rollbackToPreviousProvider spec_deps
        (snd (setProviderConfig spec_deps demo_config
                (snd (do_switch spec_deps demo_custom demo_ready))))))
     = getProviderConfig (snd (do_switch spec_deps demo_custom demo_ready))"
proof -
  let ?s = "snd (do_switch spec_deps demo_custom demo_ready)"
  have h1: "history_within demo_ready" by code_simp
  have n1: "\<not> props_within demo_config (getProviderConfig demo_ready)" by code_simp
  have h2: "history_within ?s" by code_simp
  have p2: "props_within demo_config (getProviderConfig ?s)" by code_simp
  show ?thesis
    using h1 n1 h2 p2
      rollback_merges_previous [of spec_deps demo_ready "[]" None demo_ready demo_config]
      rollback_merges_previous [of spec_deps ?s "[]" None ?s demo_config]
    by simp
qed

text \<open>
  The claim as it was written fails on the controller of the run above: it is on the
  managed endpoint \<^verbatim>\<open>main\<close>, switches to a custom endpoint and rolls back, and both calls
  return. The configuration after the rollback is neither the retained previous
  configuration nor the one that was active before the switch: it has kept the
  \<^verbatim>\<open>rpcUrl\<close>, \<^verbatim>\<open>nickname\<close> and \<^verbatim>\<open>rpcPrefs\<close> of the custom endpoint.
\<close>

theorem rollback_restores_counterexample:
  "fst (do_switch spec_deps demo_custom demo_ready) = Returned \<and>
   fst (rollbackToPreviousProvider spec_deps (snd (do_switch spec_deps demo_custom demo_ready))) =
     Returned \<and>
   getProviderConfig demo_ready =
     \<lparr> c_type = Some (JStr ''main''), c_rpcUrl = None, c_chainId = Some (JStr ''0x1''),
       c_ticker = Some (JStr ''STC''), c_nickname = None, c_rpcPrefs = None \<rparr> \<and>
   previousProviderStore (snd (do_switch spec_deps demo_custom demo_ready)) =
     getProviderConfig demo_ready \<and>
   getProviderConfig
     (snd (rollbackToPreviousProvider spec_deps (snd (do_switch spec_deps demo_custom demo_ready)))) =
     \<lparr> c_type = Some (JStr ''main''), c_rpcUrl = Some (JStr ''http://localhost:9850''),
       c_chainId = Some (JStr ''0x1''), c_ticker = Some (JStr ''STC''),
       c_nickname = Some (JStr []), c_rpcPrefs = Some JUndefined \<rparr> \<and>
   getProviderConfig
     (snd (rollbackToPreviousProvider spec_deps (snd (do_switch spec_deps demo_custom demo_ready))))
     \<noteq> previousProviderStore (snd (do_switch spec_deps demo_custom demo_ready)) \<and>
   getProviderConfig
     (snd (rollbackToPreviousProvider spec_deps (snd (do_switch spec_deps demo_custom demo_ready))))
     \<noteq> getProviderConfig demo_ready"
  by code_simp

end
